theory Spec2Isabelle
  imports Complex_Main "HOL-Library.Sublist"
begin

section \<open>JavaScript values used by the Ethereum snapshot service\<close>

text \<open>
  The service in \<^verbatim>\<open>src/backend/api/ethereum.ts\<close> reads JSON-RPC replies typed
  \<^verbatim>\<open>any\<close>, converts hex strings with \<^verbatim>\<open>parseInt\<close> and \<^verbatim>\<open>BigInt\<close>, formats
  amounts with \<^verbatim>\<open>Number.prototype.toFixed\<close> and keeps a process-wide cache.
  This first part models the JavaScript values and library functions the source calls.

  A JavaScript Number is an IEEE binary64 value. A finite one is represented by the
  rational it denotes; \<open>Finite 0\<close> is \<open>+0\<close> and \<open>NegZero\<close> is \<open>-0\<close>.
\<close>

datatype number = NaN | PosInfinity | NegInfinity | NegZero | Finite rat

datatype js_error = TypeError | SyntaxError | RangeError | NetworkError

text \<open>
  A computation that may throw returns \<open>Inl\<close> of the error; \<open>bindE\<close> runs the next
  step on a result and passes an error on.
\<close>

definition bindE :: "js_error + 'a \<Rightarrow> ('a \<Rightarrow> js_error + 'b) \<Rightarrow> js_error + 'b" where
  "bindE m f = (case m of Inl e \<Rightarrow> Inl e | Inr x \<Rightarrow> f x)"

text \<open>
  Powers with an integer exponent, by repeated squaring: \<open>ipow b e\<close> is \<open>b ^ e\<close> for
  \<open>e \<ge> 0\<close>, and \<open>pow2\<close>, \<open>pow10\<close> extend it to negative exponents.
\<close>

function ipow :: "rat \<Rightarrow> int \<Rightarrow> rat" where
  "ipow b e =
     (if e \<le> 0 then 1
      else if even e then ipow b (e div 2) * ipow b (e div 2)
      else b * (ipow b (e div 2) * ipow b (e div 2)))"
  by pat_completeness auto
termination
  by (relation "measure (\<lambda>(b, e). nat e)") auto

declare ipow.simps [simp del]

definition pow2 :: "int \<Rightarrow> rat" where
  "pow2 e = (if 0 \<le> e then ipow 2 e else 1 / ipow 2 (- e))"

definition pow10 :: "int \<Rightarrow> rat" where
  "pow10 e = (if 0 \<le> e then ipow 10 e else 1 / ipow 10 (- e))"

text \<open>The number of binary digits of a positive integer.\<close>

function bitlen :: "int \<Rightarrow> int" where
  "bitlen n = (if n \<le> 0 then 0 else 1 + bitlen (n div 2))"
  by pat_completeness auto
termination
  by (relation "measure nat") auto

declare bitlen.simps [simp del]

text \<open>\<open>ilog2 r\<close> is the integer \<open>e\<close> with \<open>2^e \<le> r < 2^(e+1)\<close>, for \<open>r > 0\<close>.\<close>

definition ilog2 :: "rat \<Rightarrow> int" where
  "ilog2 r =
     (let (a, b) = quotient_of r;
          d = bitlen a - bitlen b
      in if pow2 d \<le> r then d else d - 1)"

text \<open>Round to the nearest integer, ties to the even one.\<close>

definition roundHalfEven :: "rat \<Rightarrow> int" where
  "roundHalfEven m =
     (let f = \<lfloor>m\<rfloor>; d = m - of_int f
      in if d < 1 / 2 then f
         else if 1 / 2 < d then f + 1
         else if even f then f else f + 1)"

text \<open>
  \<open>roundPos r\<close>, for \<open>r > 0\<close>: the binary64 value nearest to \<open>r\<close> (53 significant bits,
  least exponent -1022, so subnormals have the quantum \<open>2^-1074\<close>), ties to even; a result
  of \<open>2^1024\<close> or more is an overflow, returned as \<open>None\<close>.
\<close>

definition roundPos :: "rat \<Rightarrow> rat option" where
  "roundPos r =
     (let e = max (ilog2 r) (- 1022);
          q = pow2 (e - 52);
          v = of_int (roundHalfEven (r / q)) * q
      in if 1024 \<le> ilog2 v then None else Some v)"

text \<open>\<open>toNumber r\<close> is the Number value for the real \<open>r\<close> (ECMAScript's conversion of a real to a Number).\<close>

definition toNumber :: "rat \<Rightarrow> number" where
  "toNumber r =
     (if r = 0 then Finite 0
      else if 0 < r then (case roundPos r of None \<Rightarrow> PosInfinity | Some v \<Rightarrow> Finite v)
      else (case roundPos (- r) of None \<Rightarrow> NegInfinity
            | Some v \<Rightarrow> if v = 0 then NegZero else Finite (- v)))"

subsection \<open>Arithmetic on Numbers\<close>

fun isNegative :: "number \<Rightarrow> bool" where
  "isNegative NaN = False"
| "isNegative PosInfinity = False"
| "isNegative NegInfinity = True"
| "isNegative NegZero = True"
| "isNegative (Finite r) = (r < 0)"

fun isZero :: "number \<Rightarrow> bool" where
  "isZero NegZero = True"
| "isZero (Finite r) = (r = 0)"
| "isZero _ = False"

fun isInfinite :: "number \<Rightarrow> bool" where
  "isInfinite PosInfinity = True"
| "isInfinite NegInfinity = True"
| "isInfinite _ = False"

fun realValue :: "number \<Rightarrow> rat" where
  "realValue (Finite r) = r"
| "realValue _ = 0"

definition signedZero :: "bool \<Rightarrow> number" where
  "signedZero neg = (if neg then NegZero else Finite 0)"

definition signedInfinity :: "bool \<Rightarrow> number" where
  "signedInfinity neg = (if neg then NegInfinity else PosInfinity)"

text \<open>The sign of a rounded result that underflows to zero is the sign of the exact one.\<close>

definition roundSigned :: "bool \<Rightarrow> rat \<Rightarrow> number" where
  "roundSigned neg r = (if r = 0 then signedZero neg else toNumber r)"

text \<open>The operator \<^verbatim>\<open>/\<close> on Numbers.\<close>

definition num_div :: "number \<Rightarrow> number \<Rightarrow> number" where
  "num_div x y =
     (let neg = (isNegative x \<noteq> isNegative y) in
      if x = NaN \<or> y = NaN then NaN
      else if isInfinite x then (if isInfinite y then NaN else signedInfinity neg)
      else if isInfinite y then signedZero neg
      else if isZero y then (if isZero x then NaN else signedInfinity neg)
      else roundSigned neg (realValue x / realValue y))"

text \<open>The operator \<^verbatim>\<open>*\<close> on Numbers.\<close>

definition num_mul :: "number \<Rightarrow> number \<Rightarrow> number" where
  "num_mul x y =
     (let neg = (isNegative x \<noteq> isNegative y) in
      if x = NaN \<or> y = NaN then NaN
      else if isInfinite x \<or> isInfinite y then
        (if isZero x \<or> isZero y then NaN else signedInfinity neg)
      else roundSigned neg (realValue x * realValue y))"

text \<open>The operator \<^verbatim>\<open>+\<close> on Numbers; an exact sum of zero is \<open>+0\<close> unless both are \<open>-0\<close>.\<close>

definition num_add :: "number \<Rightarrow> number \<Rightarrow> number" where
  "num_add x y =
     (if x = NaN \<or> y = NaN then NaN
      else if isInfinite x then (if isInfinite y \<and> x \<noteq> y then NaN else x)
      else if isInfinite y then y
      else if isZero x \<and> isZero y then signedZero (isNegative x \<and> isNegative y)
      else toNumber (realValue x + realValue y))"

text \<open>\<^verbatim>\<open>Math.floor\<close>.\<close>

fun num_floor :: "number \<Rightarrow> number" where
  "num_floor (Finite r) = Finite (of_int \<lfloor>r\<rfloor>)"
| "num_floor x = x"

text \<open>The comparison \<^verbatim>\<open>x < y\<close> on Numbers: false when either is NaN, and the zeros are equal.\<close>

fun num_less :: "number \<Rightarrow> number \<Rightarrow> bool" where
  "num_less NaN _ = False"
| "num_less _ NaN = False"
| "num_less PosInfinity _ = False"
| "num_less _ PosInfinity = True"
| "num_less _ NegInfinity = False"
| "num_less NegInfinity _ = True"
| "num_less x y = (realValue x < realValue y)"

subsection \<open>Strings and digits\<close>

text \<open>
  A JavaScript string is a sequence of UTF-16 code units; the model's \<open>string\<close> holds the
  code units below 256. The white space of \<^verbatim>\<open>parseInt\<close>, \<^verbatim>\<open>parseFloat\<close> and
  \<^verbatim>\<open>BigInt\<close> in that range is TAB, LF, VT, FF, CR, SP and NBSP.
\<close>

definition isWhiteSpace :: "char \<Rightarrow> bool" where
  "isWhiteSpace c = (of_char c \<in> {9, 10, 11, 12, 13, 32, 160 :: int})"

definition digitValue :: "char \<Rightarrow> int" where
  "digitValue c =
     (let n = of_char c :: int in
      if 48 \<le> n \<and> n \<le> 57 then n - 48
      else if 97 \<le> n \<and> n \<le> 122 then n - 87
      else if 65 \<le> n \<and> n \<le> 90 then n - 55
      else 36)"

definition isDigitIn :: "int \<Rightarrow> char \<Rightarrow> bool" where
  "isDigitIn radix c = (digitValue c < radix)"

text \<open>The value of a digit string in a radix, most significant digit first.\<close>

definition digitsValue :: "int \<Rightarrow> string \<Rightarrow> int" where
  "digitsValue radix ds = foldl (\<lambda>acc c. acc * radix + digitValue c) 0 ds"

definition trimStart :: "string \<Rightarrow> string" where
  "trimStart s = dropWhile isWhiteSpace s"

definition trim :: "string \<Rightarrow> string" where
  "trim s = rev (dropWhile isWhiteSpace (rev (dropWhile isWhiteSpace s)))"

text \<open>The decimal digits of a non-negative integer.\<close>

function showNat :: "int \<Rightarrow> string" where
  "showNat n =
     (if n < 10 then [char_of (48 + n)] else showNat (n div 10) @ [char_of (48 + n mod 10)])"
  by pat_completeness auto
termination
  by (relation "measure nat") auto

declare showNat.simps [simp del]


subsection \<open>Values of type \<^verbatim>\<open>any\<close>\<close>

text \<open>
  A value read from a JSON-RPC reply: \<open>JUndefined\<close> is what reading an absent property
  gives; an object is the list of its own properties.
\<close>

datatype json =
    JUndefined
  | JNull
  | JBool bool
  | JNum number
  | JStr string
  | JArr "json list"
  | JObj "(string \<times> json) list"

text \<open>
  The environment of the process: the replies of the remote node, the clock, the random
  generator, and \<^verbatim>\<open>Number.prototype.toString\<close> on the Numbers whose shortest decimal
  representation the model does not compute (non-integers and magnitudes from \<open>2^53\<close>).
  The reply to an RPC call is the parsed response body, or the error with which
  \<^verbatim>\<open>fetch\<close> or \<^verbatim>\<open>response.json()\<close> rejects; it may depend on the number of calls made
  before it, so that the node can answer the same request differently over time.
\<close>

record runtime =
  rpcReply :: "nat \<Rightarrow> string \<Rightarrow> json list \<Rightarrow> js_error + json"
  dateNow :: "nat \<Rightarrow> int"
  mathRandom :: "nat \<Rightarrow> number"
  shortestDecimal :: "rat \<Rightarrow> string"

text \<open>\<^verbatim>\<open>Number.prototype.toString\<close> (radix 10).\<close>

definition positiveToString :: "runtime \<Rightarrow> rat \<Rightarrow> string" where
  "positiveToString rt r =
     (if r = of_int \<lfloor>r\<rfloor> \<and> r < 2 ^ 53 then showNat \<lfloor>r\<rfloor> else shortestDecimal rt r)"

fun numberToString :: "runtime \<Rightarrow> number \<Rightarrow> string" where
  "numberToString rt NaN = ''NaN''"
| "numberToString rt PosInfinity = ''Infinity''"
| "numberToString rt NegInfinity = ''-Infinity''"
| "numberToString rt NegZero = ''0''"
| "numberToString rt (Finite r) =
     (if r = 0 then ''0''
      else if r < 0 then ''-'' @ positiveToString rt (- r)
      else positiveToString rt r)"

text \<open>
  The abstract operation ToString on a value. An array is joined with commas, its
  \<^verbatim>\<open>null\<close> and \<^verbatim>\<open>undefined\<close> elements giving the empty string. An object is
  converted by its \<^verbatim>\<open>toString\<close> method: the inherited one answers
  \<^verbatim>\<open>[object Object]\<close>, but an own property of that name hides it, and as no value of a
  reply can be called, the conversion then throws a TypeError (whatever \<^verbatim>\<open>valueOf\<close>
  is, since the inherited one returns the object itself).
\<close>

fun toStringJ :: "runtime \<Rightarrow> json \<Rightarrow> js_error + string"
  and joinJ :: "runtime \<Rightarrow> json list \<Rightarrow> js_error + string" where
  "toStringJ rt JUndefined = Inr ''undefined''"
| "toStringJ rt JNull = Inr ''null''"
| "toStringJ rt (JBool b) = Inr (if b then ''true'' else ''false'')"
| "toStringJ rt (JNum x) = Inr (numberToString rt x)"
| "toStringJ rt (JStr s) = Inr s"
| "toStringJ rt (JArr xs) = joinJ rt xs"
| "toStringJ rt (JObj kvs) =
     (if map_of kvs ''toString'' = None then Inr ''[object Object]'' else Inl TypeError)"
| "joinJ rt [] = Inr []"
| "joinJ rt (x # xs) =
     (case (if x = JUndefined \<or> x = JNull then Inr [] else toStringJ rt x) of
        Inl e \<Rightarrow> Inl e
      | Inr s \<Rightarrow>
          if xs = [] then Inr s
          else (case joinJ rt xs of Inl e \<Rightarrow> Inl e | Inr r \<Rightarrow> Inr (s @ '','' @ r)))"

text \<open>ToBoolean, as used by \<^verbatim>\<open>!v\<close>, \<^verbatim>\<open>if (v)\<close> and \<^verbatim>\<open>v || d\<close>.\<close>

fun truthy :: "json \<Rightarrow> bool" where
  "truthy JUndefined = False"
| "truthy JNull = False"
| "truthy (JBool b) = b"
| "truthy (JNum x) = (x \<noteq> NaN \<and> \<not> isZero x)"
| "truthy (JStr s) = (s \<noteq> [])"
| "truthy (JArr xs) = True"
| "truthy (JObj kvs) = True"

text \<open>The operator \<^verbatim>\<open>v || d\<close>.\<close>

definition orElse :: "json \<Rightarrow> json \<Rightarrow> json" where
  "orElse v d = (if truthy v then v else d)"

text \<open>
  Reading a property \<^verbatim>\<open>v.name\<close>, for the names this program reads (\<^verbatim>\<open>result\<close> and the
  fields of blocks and transactions): a TypeError on \<^verbatim>\<open>null\<close> and \<^verbatim>\<open>undefined\<close>, the
  own property of an object, and \<^verbatim>\<open>undefined\<close> otherwise, since no prototype defines one
  of these names.
\<close>

fun getProp :: "json \<Rightarrow> string \<Rightarrow> js_error + json" where
  "getProp JUndefined name = Inl TypeError"
| "getProp JNull name = Inl TypeError"
| "getProp (JObj kvs) name = Inr (case map_of kvs name of None \<Rightarrow> JUndefined | Some v \<Rightarrow> v)"
| "getProp v name = Inr JUndefined"

text \<open>\<^verbatim>\<open>typeof v === 'string'\<close>.\<close>

fun isString :: "json \<Rightarrow> bool" where
  "isString (JStr s) = True"
| "isString v = False"

subsection \<open>\<^verbatim>\<open>parseInt\<close>, \<^verbatim>\<open>BigInt\<close>, \<^verbatim>\<open>Number\<close>, \<^verbatim>\<open>toFixed\<close>, \<^verbatim>\<open>parseFloat\<close>\<close>

text \<open>
  \<^verbatim>\<open>parseInt(string, 16)\<close> on the string form of its argument: leading white space is
  dropped, then a sign, then \<^verbatim>\<open>0x\<close> or \<^verbatim>\<open>0X\<close>; the longest run of hex digits is the
  value, and no digit gives NaN.
\<close>

definition parseInt16 :: "string \<Rightarrow> number" where
  "parseInt16 inputString =
     (let S = trimStart inputString;
          neg = (take 1 S = ''-'');
          S1 = (if take 1 S = ''+'' \<or> take 1 S = ''-'' then drop 1 S else S);
          S2 = (if take 2 S1 = ''0x'' \<or> take 2 S1 = ''0X'' then drop 2 S1 else S1);
          Z = takeWhile (isDigitIn 16) S2
      in if Z = [] then NaN
         else let mathInt = digitsValue 16 Z
              in if mathInt = 0 then signedZero neg
                 else toNumber (if neg then - of_int mathInt else of_int mathInt))"

text \<open>
  StringToBigInt: the trimmed text is empty (zero), or \<^verbatim>\<open>0x\<close>, \<^verbatim>\<open>0o\<close>, \<^verbatim>\<open>0b\<close> and
  digits of that radix without a sign, or decimal digits with an optional sign; anything
  else is a SyntaxError.
\<close>

definition prefixedDigits :: "string \<Rightarrow> string \<Rightarrow> string \<Rightarrow> int \<Rightarrow> int option" where
  "prefixedDigits lower upper t radix =
     (if (take 2 t = lower \<or> take 2 t = upper) \<and> drop 2 t \<noteq> []
         \<and> list_all (isDigitIn radix) (drop 2 t)
      then Some (digitsValue radix (drop 2 t)) else None)"

definition signedDecimal :: "string \<Rightarrow> int option" where
  "signedDecimal t =
     (let neg = (take 1 t = ''-'');
          ds = (if take 1 t = ''+'' \<or> take 1 t = ''-'' then drop 1 t else t)
      in if ds \<noteq> [] \<and> list_all (isDigitIn 10) ds
         then Some (if neg then - digitsValue 10 ds else digitsValue 10 ds)
         else None)"

definition stringToBigInt :: "string \<Rightarrow> js_error + int" where
  "stringToBigInt s =
     (let t = trim s in
      if t = [] then Inr 0
      else case prefixedDigits ''0x'' ''0X'' t 16 of Some i \<Rightarrow> Inr i
      | None \<Rightarrow> (case prefixedDigits ''0o'' ''0O'' t 8 of Some i \<Rightarrow> Inr i
      | None \<Rightarrow> (case prefixedDigits ''0b'' ''0B'' t 2 of Some i \<Rightarrow> Inr i
      | None \<Rightarrow> (case signedDecimal t of Some i \<Rightarrow> Inr i
      | None \<Rightarrow> Inl SyntaxError))))"

text \<open>
  \<^verbatim>\<open>BigInt(value)\<close>: a TypeError on \<^verbatim>\<open>undefined\<close> and \<^verbatim>\<open>null\<close>, a RangeError on a
  Number that is not an integer; arrays and objects are converted through their string,
  with the TypeError of that conversion.
\<close>

fun toBigInt :: "runtime \<Rightarrow> json \<Rightarrow> js_error + int" where
  "toBigInt rt JUndefined = Inl TypeError"
| "toBigInt rt JNull = Inl TypeError"
| "toBigInt rt (JBool b) = Inr (if b then 1 else 0)"
| "toBigInt rt (JNum (Finite r)) = (if r = of_int \<lfloor>r\<rfloor> then Inr \<lfloor>r\<rfloor> else Inl RangeError)"
| "toBigInt rt (JNum NegZero) = Inr 0"
| "toBigInt rt (JNum x) = Inl RangeError"
| "toBigInt rt (JStr s) = stringToBigInt s"
| "toBigInt rt v = bindE (toStringJ rt v) stringToBigInt"

text \<open>\<^verbatim>\<open>Number(b)\<close> on a BigInt.\<close>

definition bigIntToNumber :: "int \<Rightarrow> number" where
  "bigIntToNumber i = toNumber (of_int i)"

text \<open>
  \<^verbatim>\<open>x.toFixed(f)\<close> for \<open>f \<le> 100\<close> (the source passes 6 and 2): below \<open>10^21\<close> the digits
  of the integer \<open>n\<close> nearest to \<open>x * 10^f\<close> (the larger when two are as near) with the
  point before the last \<open>f\<close> of them.
\<close>

definition toFixedAbs :: "runtime \<Rightarrow> rat \<Rightarrow> nat \<Rightarrow> string" where
  "toFixedAbs rt x f =
     (if 10 ^ 21 \<le> x then numberToString rt (Finite x)
      else let n = \<lfloor>x * 10 ^ f + 1 / 2\<rfloor>;
               m = showNat n
           in if f \<noteq> 0
              then let m' = (if length m \<le> f then replicate (f + 1 - length m) CHR ''0'' @ m else m);
                       k = length m'
                   in take (k - f) m' @ ''.'' @ drop (k - f) m'
              else m)"

fun toFixed :: "runtime \<Rightarrow> number \<Rightarrow> nat \<Rightarrow> string" where
  "toFixed rt (Finite r) f = (if r < 0 then ''-'' @ toFixedAbs rt (- r) f else toFixedAbs rt r f)"
| "toFixed rt NegZero f = toFixedAbs rt 0 f"
| "toFixed rt x f = numberToString rt x"

text \<open>
  \<^verbatim>\<open>parseFloat\<close>: after leading white space and a sign, \<^verbatim>\<open>Infinity\<close> or the longest
  decimal literal (digits, an optional fraction, an optional exponent that has a digit);
  no literal gives NaN. The literal's exact value is rounded to a Number.
\<close>

definition exponentPart :: "string \<Rightarrow> int" where
  "exponentPart r =
     (if take 1 r = ''e'' \<or> take 1 r = ''E'' then
        (let r1 = drop 1 r;
             neg = (take 1 r1 = ''-'');
             r2 = (if take 1 r1 = ''+'' \<or> take 1 r1 = ''-'' then drop 1 r1 else r1);
             ds = takeWhile (isDigitIn 10) r2
         in if ds = [] then 0
            else if neg then - digitsValue 10 ds else digitsValue 10 ds)
      else 0)"

definition parseFloat :: "string \<Rightarrow> number" where
  "parseFloat inputString =
     (let S = trimStart inputString;
          neg = (take 1 S = ''-'');
          u = (if take 1 S = ''+'' \<or> take 1 S = ''-'' then drop 1 S else S)
      in if take 8 u = ''Infinity'' then signedInfinity neg
         else
          let ip = takeWhile (isDigitIn 10) u;
              r1 = dropWhile (isDigitIn 10) u;
              hasPoint = (take 1 r1 = ''.'');
              fp = (if hasPoint then takeWhile (isDigitIn 10) (drop 1 r1) else []);
              r2 = (if hasPoint then dropWhile (isDigitIn 10) (drop 1 r1) else r1)
          in if ip = [] \<and> fp = [] then NaN
             else
              let mv = (of_int (digitsValue 10 ip) + of_int (digitsValue 10 fp) / 10 ^ length fp)
                         * pow10 (exponentPart r2)
              in roundSigned neg (if neg then - mv else mv))"

section \<open>The conversion helpers of the source\<close>

text \<open>
  \<^verbatim>\<open>hexToDecimal = (hex) => parseInt(hex, 16)\<close>: it throws when its argument has no
  string form.
\<close>

definition hexToDecimal :: "runtime \<Rightarrow> json \<Rightarrow> js_error + number" where
  "hexToDecimal rt hex = bindE (toStringJ rt hex) (\<lambda>s. Inr (parseInt16 s))"

text \<open>\<^verbatim>\<open>hexToBigInt = (hex) => BigInt(hex)\<close>\<close>

definition hexToBigInt :: "runtime \<Rightarrow> json \<Rightarrow> js_error + int" where
  "hexToBigInt rt hex = toBigInt rt hex"

text \<open>
  \<^verbatim>\<open>formatEther\<close>: \<^verbatim>\<open>Number(wei) / 1e18\<close>, then \<^verbatim>\<open>toFixed(6)\<close>; the error of
  \<^verbatim>\<open>BigInt\<close> propagates.
\<close>

definition formatEther :: "runtime \<Rightarrow> json \<Rightarrow> js_error + string" where
  "formatEther rt weiHex =
     (case hexToBigInt rt weiHex of
        Inl e \<Rightarrow> Inl e
      | Inr wei \<Rightarrow>
          (let ether = num_div (bigIntToNumber wei) (toNumber (10 ^ 18))
           in Inr (toFixed rt ether 6)))"

text \<open>\<^verbatim>\<open>formatGwei\<close>: \<^verbatim>\<open>Number(wei) / 1e9\<close>, then \<^verbatim>\<open>toFixed(2)\<close>.\<close>

definition formatGwei :: "runtime \<Rightarrow> json \<Rightarrow> js_error + string" where
  "formatGwei rt weiHex =
     (case hexToBigInt rt weiHex of
        Inl e \<Rightarrow> Inl e
      | Inr wei \<Rightarrow>
          (let gwei = num_div (bigIntToNumber wei) (toNumber (10 ^ 9))
           in Inr (toFixed rt gwei 2)))"


section \<open>The cache\<close>

text \<open>
  The interfaces of the source, as records. Field names carry a prefix of their record
  (\<open>blk_\<close>, \<open>tx_\<close>, \<open>net_\<close>, \<open>gpp_\<close>) because several interfaces share names. A
  field that the source copies from the reply without conversion holds whatever value the
  reply had, so it has type \<open>json\<close>; \<open>lastUpdate\<close> holds a reading of \<^verbatim>\<open>Date.now()\<close>,
  a whole number of milliseconds.
\<close>

record EthereumBlock =
  blk_number :: number
  blk_hash :: json
  blk_timestamp :: number
  blk_transactions :: "json list"
  blk_gasUsed :: string
  blk_gasLimit :: string
  blk_miner :: json
  blk_difficulty :: string
  blk_txCount :: nat

record EthereumTransaction =
  tx_hash :: json
  tx_from :: json
  tx_to :: json
  tx_value :: string
  tx_gasPrice :: string
  tx_gasLimit :: string
  tx_nonce :: number
  tx_blockNumber :: number

record EthereumNetworkInfo =
  net_blockNumber :: number
  net_gasPrice :: string
  net_txCount :: nat

record GasPricePoint =
  gpp_blockNumber :: number
  gpp_gasPrice :: number
  gpp_timestamp :: number

record MempoolStats =
  pendingCount :: number
  avgGasPrice :: string
  totalValue :: string

record cache =
  block :: "EthereumBlock option"
  transactions :: "EthereumTransaction list"
  networkInfo :: EthereumNetworkInfo
  blockHistory :: "EthereumBlock list"
  gasPriceHistory :: "GasPricePoint list"
  mempoolStats :: MempoolStats
  lastUpdate :: int

definition initialCache :: cache where
  "initialCache =
     \<lparr>block = None,
      transactions = [],
      networkInfo = \<lparr>net_blockNumber = Finite 0, net_gasPrice = ''0'', net_txCount = 0\<rparr>,
      blockHistory = [],
      gasPriceHistory = [],
      mempoolStats = \<lparr>pendingCount = Finite 0, avgGasPrice = ''0'', totalValue = ''0''\<rparr>,
      lastUpdate = 0\<rparr>"

text \<open>What the process writes to the console.\<close>

datatype console_entry =
    FailedToFetchBlock
  | ErrorProcessingTransaction js_error
  | ErrorFetchingEthereumData js_error
  | UpdatedEthereumData number nat

text \<open>
  The state of the process: the cache, the RPC requests sent so far (method and
  parameters), how often the clock and the random generator were read, and the console.
\<close>

record sys =
  cachedData :: cache
  rpcLog :: "(string \<times> json list) list"
  clockReads :: nat
  randomDraws :: nat
  console :: "console_entry list"

definition initialSys :: sys where
  "initialSys =
     \<lparr>cachedData = initialCache, rpcLog = [], clockReads = 0, randomDraws = 0, console = []\<rparr>"

section \<open>The RPC client\<close>

text \<open>
  What \<^verbatim>\<open>JSON.stringify\<close> puts on the wire for a value: \<^verbatim>\<open>undefined\<close> in an array
  and a Number that is not finite become \<^verbatim>\<open>null\<close>, \<open>-0\<close> becomes \<open>0\<close>, and a
  property whose value is \<^verbatim>\<open>undefined\<close> is left out.
\<close>

fun wireJ :: "json \<Rightarrow> json"
  and wireElems :: "json list \<Rightarrow> json list"
  and wireProps :: "(string \<times> json) list \<Rightarrow> (string \<times> json) list" where
  "wireJ JUndefined = JNull"
| "wireJ (JNum x) =
     (if x = NaN \<or> isInfinite x then JNull else if x = NegZero then JNum (Finite 0) else JNum x)"
| "wireJ (JArr xs) = JArr (wireElems xs)"
| "wireJ (JObj kvs) = JObj (wireProps kvs)"
| "wireJ v = v"
| "wireElems [] = []"
| "wireElems (x # xs) = wireJ x # wireElems xs"
| "wireProps [] = []"
| "wireProps ((k, v) # kvs) =
     (if v = JUndefined then wireProps kvs else (k, wireJ v) # wireProps kvs)"

text \<open>
  \<^verbatim>\<open>rpcCall\<close> posts one request, with its parameters as they go on the wire, and
  returns \<^verbatim>\<open>data.result\<close> of the parsed body; it throws when the transport or the JSON
  parser fails, and when the body is \<^verbatim>\<open>null\<close>.
\<close>

definition rpcCall :: "runtime \<Rightarrow> string \<Rightarrow> json list \<Rightarrow> sys \<Rightarrow> (js_error + json) \<times> sys" where
  "rpcCall rt method params st =
     (let sent = wireElems params;
          st' = st\<lparr>rpcLog := rpcLog st @ [(method, sent)]\<rparr>
      in case rpcReply rt (length (rpcLog st)) method sent of
           Inl e \<Rightarrow> (Inl e, st')
         | Inr data \<Rightarrow> (getProp data ''result'', st'))"

section \<open>The snapshot builder\<close>

text \<open>The receiver of \<^verbatim>\<open>.map\<close>, \<^verbatim>\<open>.length\<close> and \<^verbatim>\<open>.slice\<close> must be an array.\<close>

fun asArray :: "json \<Rightarrow> js_error + json list" where
  "asArray (JArr xs) = Inr xs"
| "asArray v = Inl TypeError"

text \<open>\<^verbatim>\<open>block.transactions.map((tx) => typeof tx === 'string' ? tx : tx.hash)\<close>\<close>

fun mapHashes :: "json list \<Rightarrow> js_error + json list" where
  "mapHashes [] = Inr []"
| "mapHashes (tx # rest) =
     bindE (if isString tx then Inr tx else getProp tx ''hash'') (\<lambda>h.
     bindE (mapHashes rest) (\<lambda>hs. Inr (h # hs)))"

text \<open>Reading \<^verbatim>\<open>block.transactions\<close> as an array.\<close>

definition blockTransactions :: "json \<Rightarrow> js_error + json list" where
  "blockTransactions blk = bindE (getProp blk ''transactions'') asArray"

text \<open>The object literal \<^verbatim>\<open>ethBlock\<close> (lines 128 to 138).\<close>

definition buildEthBlock :: "runtime \<Rightarrow> json \<Rightarrow> js_error + EthereumBlock" where
  "buildEthBlock rt blk =
     bindE (getProp blk ''number'') (\<lambda>numberJ.
     bindE (hexToDecimal rt numberJ) (\<lambda>numberN.
     bindE (getProp blk ''hash'') (\<lambda>hashJ.
     bindE (getProp blk ''timestamp'') (\<lambda>timestampJ.
     bindE (hexToDecimal rt timestampJ) (\<lambda>timestampN.
     bindE (blockTransactions blk) (\<lambda>txs.
     bindE (mapHashes txs) (\<lambda>hashes.
     bindE (getProp blk ''gasUsed'') (\<lambda>gasUsedJ.
     bindE (hexToDecimal rt gasUsedJ) (\<lambda>gasUsedN.
     bindE (getProp blk ''gasLimit'') (\<lambda>gasLimitJ.
     bindE (hexToDecimal rt gasLimitJ) (\<lambda>gasLimitN.
     bindE (getProp blk ''miner'') (\<lambda>minerJ.
     bindE (getProp blk ''difficulty'') (\<lambda>difficultyJ.
     bindE (hexToDecimal rt (orElse difficultyJ (JStr ''0x0''))) (\<lambda>difficultyN.
       Inr \<lparr>blk_number = numberN,
            blk_hash = orElse hashJ (JStr []),
            blk_timestamp = timestampN,
            blk_transactions = hashes,
            blk_gasUsed = numberToString rt gasUsedN,
            blk_gasLimit = numberToString rt gasLimitN,
            blk_miner = orElse minerJ (JStr []),
            blk_difficulty = numberToString rt difficultyN,
            blk_txCount = length txs\<rparr>))))))))))))))"

text \<open>The object pushed for one transaction (lines 149 to 158).\<close>

definition normalizeTx :: "runtime \<Rightarrow> json \<Rightarrow> js_error + EthereumTransaction" where
  "normalizeTx rt txData =
     bindE (getProp txData ''hash'') (\<lambda>hashJ.
     bindE (getProp txData ''from'') (\<lambda>fromJ.
     bindE (getProp txData ''to'') (\<lambda>toJ.
     bindE (getProp txData ''value'') (\<lambda>valueJ.
     bindE (formatEther rt valueJ) (\<lambda>valueS.
     bindE (getProp txData ''gasPrice'') (\<lambda>gasPriceJ.
     bindE (formatGwei rt gasPriceJ) (\<lambda>gasPriceS.
     bindE (getProp txData ''gas'') (\<lambda>gasJ.
     bindE (hexToDecimal rt gasJ) (\<lambda>gasN.
     bindE (getProp txData ''nonce'') (\<lambda>nonceJ.
     bindE (hexToDecimal rt nonceJ) (\<lambda>nonceN.
     bindE (getProp txData ''blockNumber'') (\<lambda>blockNumberJ.
     bindE (hexToDecimal rt (orElse blockNumberJ (JStr ''0x0''))) (\<lambda>blockNumberN.
       Inr \<lparr>tx_hash = hashJ,
            tx_from = fromJ,
            tx_to = orElse toJ (JStr ''Contract Creation''),
            tx_value = valueS,
            tx_gasPrice = gasPriceS,
            tx_gasLimit = numberToString rt gasN,
            tx_nonce = nonceN,
            tx_blockNumber = blockNumberN\<rparr>)))))))))))))"

text \<open>
  Line 146: the data of one sampled transaction, requested from the node when the block
  gave its hash only.
\<close>

definition fetchTx :: "runtime \<Rightarrow> json \<Rightarrow> sys \<Rightarrow> (js_error + json) \<times> sys" where
  "fetchTx rt tx st =
     (if isString tx then rpcCall rt ''eth_getTransactionByHash'' [tx] st else (Inr tx, st))"

text \<open>
  One iteration of the loop over \<^verbatim>\<open>txList\<close> (lines 145 to 162): the transaction
  pushed, if any. An error of the fetch or of the normalisation is caught and logged.
\<close>

definition txStep :: "runtime \<Rightarrow> json \<Rightarrow> sys \<Rightarrow> EthereumTransaction option \<times> sys" where
  "txStep rt tx st =
     (case fetchTx rt tx st of
        (Inl e, st') \<Rightarrow>
          (None, st'\<lparr>console := console st' @ [ErrorProcessingTransaction e]\<rparr>)
      | (Inr txData, st') \<Rightarrow>
          if truthy txData then
            (case normalizeTx rt txData of
               Inl e \<Rightarrow> (None, st'\<lparr>console := console st' @ [ErrorProcessingTransaction e]\<rparr>)
             | Inr t \<Rightarrow> (Some t, st'))
          else (None, st'))"

text \<open>The loop, with the array \<^verbatim>\<open>transactions\<close> as accumulator.\<close>

fun txLoop ::
  "runtime \<Rightarrow> json list \<Rightarrow> EthereumTransaction list \<Rightarrow> sys \<Rightarrow> EthereumTransaction list \<times> sys"
where
  "txLoop rt [] acc st = (acc, st)"
| "txLoop rt (tx # rest) acc st =
     (case txStep rt tx st of
        (Some t, st') \<Rightarrow> txLoop rt rest (acc @ [t]) st'
      | (None, st') \<Rightarrow> txLoop rt rest acc st')"

text \<open>How the try block of \<^verbatim>\<open>fetchLatestBlockData\<close> ends.\<close>

datatype cycle_end = ReturnedNoBlock | Threw js_error | Completed

text \<open>\<^verbatim>\<open>Math.random()\<close> and \<^verbatim>\<open>Date.now()\<close>.\<close>

definition nextRandom :: "runtime \<Rightarrow> sys \<Rightarrow> number \<times> sys" where
  "nextRandom rt st = (mathRandom rt (randomDraws st), st\<lparr>randomDraws := Suc (randomDraws st)\<rparr>)"

definition readClock :: "runtime \<Rightarrow> sys \<Rightarrow> int \<times> sys" where
  "readClock rt st = (dateNow rt (clockReads st), st\<lparr>clockReads := Suc (clockReads st)\<rparr>)"

text \<open>
  Lines 169 to 206: the network info, the two histories (\<^verbatim>\<open>unshift\<close>, then
  \<^verbatim>\<open>slice\<close> when too long), the simulated mempool figures, and the assignments to
  the cache, in the order of the source. The block history is written at line 177; the
  argument of the second \<^verbatim>\<open>unshift\<close> calls \<^verbatim>\<open>hexToDecimal\<close> at line 186, after
  that write.
\<close>

definition updateCache ::
  "runtime \<Rightarrow> number \<Rightarrow> json \<Rightarrow> EthereumBlock \<Rightarrow> EthereumTransaction list \<Rightarrow> string \<Rightarrow> sys
     \<Rightarrow> cycle_end \<times> sys"
where
  "updateCache rt latestBlockNumber blk ethBlock txs currentGasPrice st =
     (case blockTransactions blk of
        Inl e \<Rightarrow> (Threw e, st)
      | Inr blockTxs \<Rightarrow>
         (let info = \<lparr>net_blockNumber = latestBlockNumber, net_gasPrice = currentGasPrice,
                      net_txCount = length blockTxs\<rparr>;
              bh = ethBlock # blockHistory (cachedData st);
              st1 = st\<lparr>cachedData := (cachedData st)
                      \<lparr>blockHistory := (if 20 < length bh then take 20 bh else bh)\<rparr>\<rparr>
          in (case bindE (getProp blk ''timestamp'') (hexToDecimal rt) of
                Inl e \<Rightarrow> (Threw e, st1)
              | Inr timestampN \<Rightarrow>
                 (let gh = \<lparr>gpp_blockNumber = latestBlockNumber,
                            gpp_gasPrice = parseFloat currentGasPrice,
                            gpp_timestamp = timestampN\<rparr>
                           # gasPriceHistory (cachedData st1);
                      st2 = st1\<lparr>cachedData := (cachedData st1)
                              \<lparr>gasPriceHistory := (if 50 < length gh then take 50 gh else gh)\<rparr>\<rparr>;
                      (r1, st3) = nextRandom rt st2;
                      (r2, st4) = nextRandom rt st3;
                      stats = \<lparr>pendingCount =
                                 num_floor (num_add (num_mul r1 (Finite 50000)) (Finite 10000)),
                               avgGasPrice = currentGasPrice,
                               totalValue =
                                 toFixed rt (num_add (num_mul r2 (Finite 100)) (Finite 50)) 2\<rparr>;
                      (now, st5) = readClock rt st4;
                      st6 = st5\<lparr>cachedData := (cachedData st5)
                              \<lparr>block := Some ethBlock,
                               transactions := txs,
                               networkInfo := info,
                               mempoolStats := stats,
                               lastUpdate := now\<rparr>\<rparr>
                  in (Completed,
                      st6\<lparr>console := console st6
                             @ [UpdatedEthereumData latestBlockNumber (length txs)]\<rparr>)))))"

text \<open>Lines 166 and 167: the gas price is fetched once and formatted in gwei.\<close>

definition fetchGasPrice :: "runtime \<Rightarrow> sys \<Rightarrow> (js_error + string) \<times> sys" where
  "fetchGasPrice rt st =
     (case rpcCall rt ''eth_gasPrice'' [] st of
        (Inl e, st') \<Rightarrow> (Inl e, st')
      | (Inr gasPriceHex, st') \<Rightarrow> (formatGwei rt gasPriceHex, st'))"

text \<open>
  Lines 127 to 167: the block is normalised, at most 15 transactions are sampled, and the
  gas price is fetched; any error leaves through the outer catch.
\<close>

definition processBlock :: "runtime \<Rightarrow> number \<Rightarrow> json \<Rightarrow> sys \<Rightarrow> cycle_end \<times> sys" where
  "processBlock rt latestBlockNumber blk st =
     (case buildEthBlock rt blk of
        Inl e \<Rightarrow> (Threw e, st)
      | Inr ethBlock \<Rightarrow>
         (case blockTransactions blk of
            Inl e \<Rightarrow> (Threw e, st)
          | Inr blockTxs \<Rightarrow>
             (let (txs, st1) = txLoop rt (take 15 blockTxs) [] st
              in (case fetchGasPrice rt st1 of
                    (Inl e, st2) \<Rightarrow> (Threw e, st2)
                  | (Inr currentGasPrice, st2) \<Rightarrow>
                      updateCache rt latestBlockNumber blk ethBlock txs currentGasPrice st2))))"

text \<open>
  Lines 116 to 120: the latest block number, then the block of that number with its
  transactions. The result is the hex string, its value and the block.
\<close>

definition fetchBlock :: "runtime \<Rightarrow> sys \<Rightarrow> (js_error + json \<times> number \<times> json) \<times> sys" where
  "fetchBlock rt st =
     (case rpcCall rt ''eth_blockNumber'' [] st of
        (Inl e, st1) \<Rightarrow> (Inl e, st1)
      | (Inr latestBlockNumberHex, st1) \<Rightarrow>
          (case hexToDecimal rt latestBlockNumberHex of
             Inl e \<Rightarrow> (Inl e, st1)
           | Inr latestBlockNumber \<Rightarrow>
              (case rpcCall rt ''eth_getBlockByNumber'' [latestBlockNumberHex, JBool True] st1 of
                 (Inl e, st2) \<Rightarrow> (Inl e, st2)
               | (Inr blk, st2) \<Rightarrow> (Inr (latestBlockNumberHex, latestBlockNumber, blk), st2))))"

text \<open>The try block of \<^verbatim>\<open>fetchLatestBlockData\<close>.\<close>

definition fetchTry :: "runtime \<Rightarrow> sys \<Rightarrow> cycle_end \<times> sys" where
  "fetchTry rt st =
     (case fetchBlock rt st of
        (Inl e, st2) \<Rightarrow> (Threw e, st2)
      | (Inr (latestBlockNumberHex, latestBlockNumber, blk), st2) \<Rightarrow>
          if \<not> truthy blk then
            (ReturnedNoBlock, st2\<lparr>console := console st2 @ [FailedToFetchBlock]\<rparr>)
          else processBlock rt latestBlockNumber blk st2)"

text \<open>\<^verbatim>\<open>fetchLatestBlockData\<close>: the try block, and the catch that logs the error.\<close>

definition fetchLatestBlockData :: "runtime \<Rightarrow> sys \<Rightarrow> sys" where
  "fetchLatestBlockData rt st =
     (case fetchTry rt st of
        (Threw e, st') \<Rightarrow> st'\<lparr>console := console st' @ [ErrorFetchingEthereumData e]\<rparr>
      | (_, st') \<Rightarrow> st')"

text \<open>
  A sequence of \<open>n\<close> refresh cycles, each run to its end before the next, as the
  source assumes of its timer and its snapshot route. A cycle that the snapshot route
  starts differs from one of the timer only in that the clock was read once more before
  it; the clock of the environment being arbitrary, the sequences cover both.
\<close>

primrec cycles :: "runtime \<Rightarrow> nat \<Rightarrow> sys \<Rightarrow> sys" where
  "cycles rt 0 st = st"
| "cycles rt (Suc n) st = fetchLatestBlockData rt (cycles rt n st)"

section \<open>The HTTP routes\<close>

text \<open>
  Each handler returns its response body (before serialisation) and the state it leaves.
  \<^verbatim>\<open>GET /api/ethereum/snapshot\<close> refreshes first when the cache is older than 30000 ms.
\<close>

definition snapshotRoute :: "runtime \<Rightarrow> sys \<Rightarrow> cache \<times> sys" where
  "snapshotRoute rt st =
     (let (now, st1) = readClock rt st;
          st2 = (if now - lastUpdate (cachedData st1) > 30000
                 then fetchLatestBlockData rt st1 else st1)
      in (cachedData st2, st2))"

record health_response =
  status :: string
  health_lastUpdate :: int
  health_blockNumber :: number

definition healthRoute :: "sys \<Rightarrow> health_response \<times> sys" where
  "healthRoute st =
     (\<lparr>status = ''ok'',
       health_lastUpdate = lastUpdate (cachedData st),
       health_blockNumber = net_blockNumber (networkInfo (cachedData st))\<rparr>, st)"

definition mempoolRoute :: "sys \<Rightarrow> MempoolStats \<times> sys" where
  "mempoolRoute st = (mempoolStats (cachedData st), st)"


section \<open>Notions used to state the properties\<close>

text \<open>
  The outcome of each iteration of the loop over the sampled transactions, in order:
  the transaction it pushed, or \<open>None\<close> when it pushed nothing.
\<close>

fun txOutcomes :: "runtime \<Rightarrow> json list \<Rightarrow> sys \<Rightarrow> EthereumTransaction option list" where
  "txOutcomes rt [] st = []"
| "txOutcomes rt (tx # rest) st = (case txStep rt tx st of (r, st') \<Rightarrow> r # txOutcomes rt rest st')"

text \<open>Every entry's block number is greater than that of the entry after it.\<close>

definition strictlyNewestFirst :: "EthereumBlock list \<Rightarrow> bool" where
  "strictlyNewestFirst bs = successively (\<lambda>a b. num_less (blk_number b) (blk_number a)) bs"

text \<open>The age of the cache at the next reading of the clock.\<close>

definition cacheAge :: "runtime \<Rightarrow> sys \<Rightarrow> int" where
  "cacheAge rt st = dateNow rt (clockReads st) - lastUpdate (cachedData st)"

text \<open>
  Two states with the same cache that have read the clock and the random generator
  equally often; they may differ in the requests sent and in the console.
\<close>

definition sameFrame :: "sys \<Rightarrow> sys \<Rightarrow> bool" where
  "sameFrame st st' \<longleftrightarrow>
     cachedData st' = cachedData st \<and> clockReads st' = clockReads st
     \<and> randomDraws st' = randomDraws st"

text \<open>
  The cache after lines 169 to 206, as one value; the timestamp of the gas-price sample
  is the one of the block just built, both being \<^verbatim>\<open>hexToDecimal(block.timestamp)\<close>.
\<close>

definition committed ::
  "runtime \<Rightarrow> number \<Rightarrow> EthereumBlock \<Rightarrow> EthereumTransaction list \<Rightarrow> string \<Rightarrow> nat \<Rightarrow> sys \<Rightarrow> cache"
where
  "committed rt n ethBlock txs g k st =
     \<lparr>block = Some ethBlock,
      transactions = txs,
      networkInfo = \<lparr>net_blockNumber = n, net_gasPrice = g, net_txCount = k\<rparr>,
      blockHistory = take 20 (ethBlock # blockHistory (cachedData st)),
      gasPriceHistory =
        take 50 (\<lparr>gpp_blockNumber = n, gpp_gasPrice = parseFloat g,
                  gpp_timestamp = blk_timestamp ethBlock\<rparr> # gasPriceHistory (cachedData st)),
      mempoolStats =
        \<lparr>pendingCount =
           num_floor (num_add (num_mul (mathRandom rt (randomDraws st)) (Finite 50000)) (Finite 10000)),
         avgGasPrice = g,
         totalValue =
           toFixed rt (num_add (num_mul (mathRandom rt (Suc (randomDraws st))) (Finite 100)) (Finite 50)) 2\<rparr>,
      lastUpdate = dateNow rt (clockReads st)\<rparr>"

text \<open>
  What line 146 obtained for each sampled transaction, in order: the error thrown by the
  request, or the data (the reply's result, or the entry itself when the block embeds it).
\<close>

fun txFetches :: "runtime \<Rightarrow> json list \<Rightarrow> sys \<Rightarrow> (js_error + json) list" where
  "txFetches rt [] st = []"
| "txFetches rt (tx # rest) st =
     fst (fetchTx rt tx st) # txFetches rt rest (snd (txStep rt tx st))"



text \<open>
  The cycle started in \<open>st\<close>, if it completes, has fetched a block whose number is
  greater than that of the newest entry of the history.
\<close>

definition observedNewer :: "runtime \<Rightarrow> sys \<Rightarrow> bool" where
  "observedNewer rt st \<longleftrightarrow>
     (fst (fetchTry rt st) = Completed \<longrightarrow>
        (case fetchBlock rt st of
           (Inr (hex, n, blk), st0) \<Rightarrow>
             (case bindE (getProp blk ''number'') (hexToDecimal rt) of
                Inr numberN \<Rightarrow>
                  list_all (\<lambda>b. num_less (blk_number b) numberN)
                    (take 1 (blockHistory (cachedData st)))
              | Inl e \<Rightarrow> False)
         | (Inl e, st0) \<Rightarrow> False))"

section \<open>Example environments\<close>

text \<open>
  A node that always serves block 16 with two transactions: a contract creation, embedded
  as an object, and one given by its hash only, whose detail request is rejected.
\<close>

definition txCreate :: json where
  "txCreate =
     JObj [(''hash'', JStr ''0xaa''), (''from'', JStr ''0x01''), (''to'', JNull),
           (''value'', JStr ''0xde0b6b3a7640000''), (''gasPrice'', JStr ''0x3b9aca00''),
           (''gas'', JStr ''0x5208''), (''nonce'', JStr ''0x1''), (''blockNumber'', JStr ''0x10'')]"

text \<open>What the cycle pushes for \<open>txCreate\<close>.\<close>

definition txCreated :: EthereumTransaction where
  "txCreated =
     \<lparr>tx_hash = JStr ''0xaa'', tx_from = JStr ''0x01'', tx_to = JStr ''Contract Creation'',
      tx_value = ''1.000000'', tx_gasPrice = ''1.00'', tx_gasLimit = ''21000'',
      tx_nonce = Finite 1, tx_blockNumber = Finite 16\<rparr>"

definition blockJ :: "string \<Rightarrow> json" where
  "blockJ num =
     JObj [(''number'', JStr num), (''hash'', JStr ''0xb10c''), (''timestamp'', JStr ''0x64''),
           (''transactions'', JArr [txCreate, JStr ''0xbb'']), (''gasUsed'', JStr ''0x5208''),
           (''gasLimit'', JStr ''0x1c9c380''), (''miner'', JStr ''0x99'')]"

text \<open>What the cycle stores for \<open>blockJ\<close>, given the value of its number.\<close>

definition ethBlockOf :: "number \<Rightarrow> EthereumBlock" where
  "ethBlockOf n =
     \<lparr>blk_number = n, blk_hash = JStr ''0xb10c'', blk_timestamp = Finite 100,
      blk_transactions = [JStr ''0xaa'', JStr ''0xbb''], blk_gasUsed = ''21000'',
      blk_gasLimit = ''30000000'', blk_miner = JStr ''0x99'', blk_difficulty = ''0'',
      blk_txCount = 2\<rparr>"

definition reply :: "json \<Rightarrow> js_error + json" where
  "reply v = Inr (JObj [(''result'', v)])"

definition nodeSame :: "nat \<Rightarrow> string \<Rightarrow> json list \<Rightarrow> js_error + json" where
  "nodeSame n method params =
     (if method = ''eth_blockNumber'' then reply (JStr ''0x10'')
      else if method = ''eth_getBlockByNumber'' then reply (blockJ ''0x10'')
      else if method = ''eth_gasPrice'' then reply (JStr ''0x3b9aca00'')
      else Inl NetworkError)"

definition rtSame :: runtime where
  "rtSame =
     \<lparr>rpcReply = nodeSame, dateNow = (\<lambda>n. 45000 + int n),
      mathRandom = (\<lambda>n. Finite (1 / 2)), shortestDecimal = (\<lambda>r. [])\<rparr>"

text \<open>The same node when the gas price request fails.\<close>

definition nodeNoGas :: "nat \<Rightarrow> string \<Rightarrow> json list \<Rightarrow> js_error + json" where
  "nodeNoGas n method params =
     (if method = ''eth_gasPrice'' then Inl NetworkError else nodeSame n method params)"

definition rtNoGas :: runtime where
  "rtNoGas = rtSame\<lparr>rpcReply := nodeNoGas\<rparr>"

text \<open>A node whose chain has grown from block 16 to block 17 by the fifth request.\<close>

definition nodeGrowing :: "nat \<Rightarrow> string \<Rightarrow> json list \<Rightarrow> js_error + json" where
  "nodeGrowing n method params =
     (if method = ''eth_blockNumber'' then reply (JStr (if n < 4 then ''0x10'' else ''0x11''))
      else if method = ''eth_getBlockByNumber''
      then reply (blockJ (if n < 4 then ''0x10'' else ''0x11''))
      else nodeSame n method params)"

definition rtGrowing :: runtime where
  "rtGrowing = rtSame\<lparr>rpcReply := nodeGrowing\<rparr>"

text \<open>
  A node that serves block 16 with a \<^verbatim>\<open>difficulty\<close> that has no string form: an
  object with an own property \<^verbatim>\<open>toString\<close>.
\<close>

definition blockBad :: json where
  "blockBad =
     JObj [(''number'', JStr ''0x10''), (''hash'', JStr ''0xb10c''), (''timestamp'', JStr ''0x64''),
           (''transactions'', JArr [txCreate, JStr ''0xbb'']), (''gasUsed'', JStr ''0x5208''),
           (''gasLimit'', JStr ''0x1c9c380''), (''miner'', JStr ''0x99''),
           (''difficulty'', JObj [(''toString'', JNum (Finite 0))])]"

definition nodeBadBlock :: "nat \<Rightarrow> string \<Rightarrow> json list \<Rightarrow> js_error + json" where
  "nodeBadBlock n method params =
     (if method = ''eth_getBlockByNumber'' then reply blockBad else nodeSame n method params)"

definition rtBadBlock :: runtime where
  "rtBadBlock = rtSame\<lparr>rpcReply := nodeBadBlock\<rparr>"

text \<open>An endpoint that cannot be reached.\<close>

definition rtDown :: runtime where
  "rtDown = rtSame\<lparr>rpcReply := (\<lambda>n method params. Inl NetworkError)\<rparr>"


text \<open>The requests of one cycle of the examples, when the latest block is \<open>num\<close>.\<close>

definition exampleRequests :: "string \<Rightarrow> (string \<times> json list) list" where
  "exampleRequests num =
     [(''eth_blockNumber'', []), (''eth_getBlockByNumber'', [JStr num, JBool True]),
      (''eth_getTransactionByHash'', [JStr ''0xbb'']), (''eth_gasPrice'', [])]"

text \<open>The state after a cycle of the examples that found the block numbered \<open>num\<close>.\<close>

definition exampleResult :: "runtime \<Rightarrow> string \<Rightarrow> sys \<Rightarrow> sys" where
  "exampleResult rt num st =
     \<lparr>cachedData =
        committed rt (parseInt16 num) (ethBlockOf (parseInt16 num)) [txCreated] ''1.00'' 2 st,
      rpcLog = rpcLog st @ exampleRequests num,
      clockReads = Suc (clockReads st),
      randomDraws = Suc (Suc (randomDraws st)),
      console = console st @ [ErrorProcessingTransaction NetworkError,
                              UpdatedEthereumData (parseInt16 num) 1]\<rparr>"


section \<open>The library model on known values\<close>

text \<open>\<open>ipow\<close> is the power.\<close>

lemma ipow_power: "0 \<le> e \<Longrightarrow> ipow b e = b ^ nat e"
proof (induction b e rule: ipow.induct)
  case (1 b e)
  show ?case
  proof (cases "e \<le> 0")
    case True
    with "1.prems" show ?thesis by (simp add: ipow.simps)
  next
    case False
    then have pos: "0 < e" by simp
    have half: "ipow b (e div 2) = b ^ nat (e div 2)"
      using "1.IH"(1) [OF False] "1.IH"(3) [OF False] pos by (cases "even e") simp_all
    have sq: "b ^ nat (e div 2) * b ^ nat (e div 2) = b ^ (2 * nat (e div 2))"
      by (simp add: power_add mult_2)
    show ?thesis
    proof (cases "even e")
      case True
      then have "2 * nat (e div 2) = nat e" using pos by (auto elim!: evenE)
      with False True half sq show ?thesis by (simp add: ipow.simps [of b e])
    next
      case odd: False
      then have "Suc (2 * nat (e div 2)) = nat e" using pos by (auto elim!: oddE simp: nat_add_distrib nat_mult_distrib)
      with False odd half sq show ?thesis by (simp add: ipow.simps [of b e]) (metis power_Suc)
    qed
  qed
qed

text \<open>Known values of the operations on Numbers and strings.\<close>

lemma toNumber_tenth: "toNumber (1 / 10) = Finite (3602879701896397 / 36028797018963968)"
  by code_simp

lemma toNumber_ties_to_even:
  "toNumber (2 ^ 53 + 1) = Finite (2 ^ 53)" "toNumber (2 ^ 53 + 3) = Finite (2 ^ 53 + 4)"
  by code_simp+

lemma parseInt16_examples:
  "parseInt16 ''0x1F'' = Finite 31" "parseInt16 ''  ff zz'' = Finite 255"
  "parseInt16 ''-0'' = NegZero" "parseInt16 ''undefined'' = NaN" "parseInt16 ''0x'' = NaN"
  by code_simp+

lemma stringToBigInt_examples:
  "stringToBigInt ''0x10'' = Inr 16" "stringToBigInt '''' = Inr 0"
  "stringToBigInt '' 42 '' = Inr 42" "stringToBigInt ''0x'' = Inl SyntaxError"
  "stringToBigInt ''-0x10'' = Inl SyntaxError" "stringToBigInt ''1.5'' = Inl SyntaxError"
  by code_simp+

lemma format_examples:
  "formatGwei rt (JStr ''0x59682f00'') = Inr ''1.50''"
  "formatEther rt (JStr ''0x1'') = Inr ''0.000000''"
  "formatEther rt (JStr ''1500000000000000000'') = Inr ''1.500000''"
  "formatEther rt JUndefined = Inl TypeError"
  "formatGwei rt (JStr ''0xzz'') = Inl SyntaxError"
  "formatGwei rt (JStr ''-1'') = Inr ''-0.00''"
  by code_simp+

lemma hexToDecimal_JStr: "hexToDecimal rt (JStr s) = Inr (parseInt16 s)"
  by (simp add: hexToDecimal_def bindE_def)

lemma hexToDecimal_examples:
  "hexToDecimal rt JUndefined = Inr NaN"
  "hexToDecimal rt (JObj []) = Inr NaN"
  "hexToDecimal rt (JArr [JStr ''0x10'']) = Inr (Finite 16)"
  "hexToDecimal rt (JArr [JNull, JStr ''ff'']) = Inr NaN"
  "hexToDecimal rt (JObj [(''toString'', JNum (Finite 0))]) = Inl TypeError"
  "hexToDecimal rt (JArr [JStr ''1'', JObj [(''toString'', JNull)]]) = Inl TypeError"
  by code_simp+

lemma toBigInt_examples:
  "toBigInt rt (JObj [(''toString'', JNum (Finite 0))]) = Inl TypeError"
  "toBigInt rt (JObj []) = Inl SyntaxError"
  "toBigInt rt (JArr []) = Inr 0"
  "toBigInt rt (JArr [JStr ''0x10'']) = Inr 16"
  by code_simp+

section \<open>How a refresh cycle ends\<close>


lemma bindE_simps [simp]: "bindE (Inl e) f = Inl e" "bindE (Inr x) f = f x"
  by (simp_all add: bindE_def)

lemma bindE_eq_Inr: "bindE m f = Inr y \<longleftrightarrow> (\<exists>x. m = Inr x \<and> f x = Inr y)"
  by (cases m) simp_all

lemma sameFrame_refl [simp]: "sameFrame st st"
  by (simp add: sameFrame_def)

lemma sameFrame_trans: "sameFrame a b \<Longrightarrow> sameFrame b c \<Longrightarrow> sameFrame a c"
  by (simp add: sameFrame_def)

lemma sameFrame_console [simp]: "sameFrame st (st'\<lparr>console := c\<rparr>) = sameFrame st st'"
  by (simp add: sameFrame_def)

lemma rpcCall_frame: "rpcCall rt m ps st = (r, st') \<Longrightarrow> sameFrame st st'"
  by (auto simp: rpcCall_def Let_def sameFrame_def split: sum.splits)

lemma rpcCall_log:
  "rpcCall rt m ps st = (r, st') \<Longrightarrow> rpcLog st' = rpcLog st @ [(m, wireElems ps)]"
  by (auto simp: rpcCall_def Let_def split: sum.splits)

lemma fetchTx_frame: "fetchTx rt tx st = (r, st') \<Longrightarrow> sameFrame st st'"
  by (auto simp: fetchTx_def split: if_splits dest: rpcCall_frame)

lemma txStep_frame: "txStep rt tx st = (r, st') \<Longrightarrow> sameFrame st st'"
  by (auto simp: txStep_def split: sum.splits prod.splits if_splits dest: fetchTx_frame)

lemma txLoop_frame: "txLoop rt txs acc st = (r, st') \<Longrightarrow> sameFrame st st'"
proof (induction txs arbitrary: acc st)
  case Nil
  then show ?case by simp
next
  case (Cons tx rest)
  obtain o1 st1 where step: "txStep rt tx st = (o1, st1)" by (cases "txStep rt tx st")
  from Cons.prems step obtain acc' where "txLoop rt rest acc' st1 = (r, st')"
    by (cases o1) auto
  then have "sameFrame st1 st'" by (rule Cons.IH)
  with txStep_frame [OF step] show ?case by (rule sameFrame_trans)
qed

lemma txLoop_outcomes:
  "fst (txLoop rt txs acc st) = acc @ List.map_filter id (txOutcomes rt txs st)"
proof (induction txs arbitrary: acc st)
  case Nil
  show ?case by (simp add: List.map_filter_simps)
next
  case (Cons tx rest)
  obtain r st' where step: "txStep rt tx st = (r, st')" by (cases "txStep rt tx st")
  show ?case using Cons.IH [of _ st'] step
    by (cases r) (simp_all add: List.map_filter_simps)
qed

lemma txOutcomes_length [simp]: "length (txOutcomes rt txs st) = length txs"
  by (induction txs arbitrary: st) (simp_all split: prod.splits)

lemma fetchGasPrice_frame: "fetchGasPrice rt st = (r, st') \<Longrightarrow> sameFrame st st'"
  by (auto simp: fetchGasPrice_def split: sum.splits prod.splits dest: rpcCall_frame)

lemma fetchBlock_frame: "fetchBlock rt st = (r, st') \<Longrightarrow> sameFrame st st'"
  by (auto simp: fetchBlock_def split: sum.splits prod.splits
      dest!: rpcCall_frame intro: sameFrame_trans)

lemma take_if: "(if n < length xs then take n xs else xs) = take n xs"
  by simp

text \<open>
  Line 186 evaluates what line 131 has evaluated, so it cannot throw once the block is
  built; this is why no write to the cache is followed by a throw.
\<close>

lemma buildEthBlock_timestamp:
  assumes "buildEthBlock rt blk = Inr eb"
  shows "bindE (getProp blk ''timestamp'') (hexToDecimal rt) = Inr (blk_timestamp eb)"
proof -
  from assms obtain timestampJ timestampN where
    "getProp blk ''timestamp'' = Inr timestampJ" "hexToDecimal rt timestampJ = Inr timestampN"
    "blk_timestamp eb = timestampN"
    by (auto simp: buildEthBlock_def bindE_eq_Inr)
  then show ?thesis by simp
qed

lemma buildEthBlock_transactions:
  assumes "buildEthBlock rt blk = Inr eb"
  shows "\<exists>blockTxs. blockTransactions blk = Inr blockTxs"
  using assms by (auto simp: buildEthBlock_def bindE_eq_Inr)

lemma updateCache_completed:
  assumes "blockTransactions blk = Inr blockTxs" "buildEthBlock rt blk = Inr ethBlock"
  shows "fst (updateCache rt n blk ethBlock txs g st) = Completed"
    and "cachedData (snd (updateCache rt n blk ethBlock txs g st)) =
           committed rt n ethBlock txs g (length blockTxs) st"
  using assms(1) buildEthBlock_timestamp [OF assms(2)]
  by (simp_all add: updateCache_def Let_def nextRandom_def readClock_def committed_def take_if)

lemma committed_frame:
  "sameFrame st st' \<Longrightarrow> committed rt n eb txs g k st' = committed rt n eb txs g k st"
  by (simp add: committed_def sameFrame_def)

lemma processBlock_failed:
  assumes "processBlock rt n blk st = (r, st')" "r \<noteq> Completed"
  shows "sameFrame st st'"
proof (cases "buildEthBlock rt blk")
  case (Inl e)
  with assms show ?thesis by (simp add: processBlock_def)
next
  case eb: (Inr ethBlock)
  show ?thesis
  proof (cases "blockTransactions blk")
    case (Inl e)
    with assms eb show ?thesis by (simp add: processBlock_def)
  next
    case bt: (Inr blockTxs)
    obtain txs st1 where lp: "txLoop rt (take 15 blockTxs) [] st = (txs, st1)"
      by (cases "txLoop rt (take 15 blockTxs) [] st")
    obtain g st2 where gp: "fetchGasPrice rt st1 = (g, st2)"
      by (cases "fetchGasPrice rt st1")
    have fr: "sameFrame st st2"
      using txLoop_frame [OF lp] fetchGasPrice_frame [OF gp] by (rule sameFrame_trans)
    show ?thesis
    proof (cases g)
      case (Inl e)
      with assms eb bt lp gp fr show ?thesis by (simp add: processBlock_def)
    next
      case (Inr price)
      with assms eb bt lp gp have "r = fst (updateCache rt n blk ethBlock txs price st2)"
        by (simp add: processBlock_def)
      with assms(2) updateCache_completed(1) [OF bt eb] show ?thesis by simp
    qed
  qed
qed

lemma processBlock_completed:
  assumes "processBlock rt n blk st = (Completed, st')"
  shows "\<exists>ethBlock blockTxs txs st1 g st2.
           buildEthBlock rt blk = Inr ethBlock \<and> blockTransactions blk = Inr blockTxs
           \<and> txLoop rt (take 15 blockTxs) [] st = (txs, st1)
           \<and> fetchGasPrice rt st1 = (Inr g, st2)
           \<and> cachedData st' = committed rt n ethBlock txs g (length blockTxs) st"
proof (cases "buildEthBlock rt blk")
  case (Inl e)
  with assms show ?thesis by (simp add: processBlock_def)
next
  case eb: (Inr ethBlock)
  show ?thesis
  proof (cases "blockTransactions blk")
    case (Inl e)
    with assms eb show ?thesis by (simp add: processBlock_def)
  next
    case bt: (Inr blockTxs)
    obtain txs st1 where lp: "txLoop rt (take 15 blockTxs) [] st = (txs, st1)"
      by (cases "txLoop rt (take 15 blockTxs) [] st")
    obtain g st2 where gp: "fetchGasPrice rt st1 = (g, st2)"
      by (cases "fetchGasPrice rt st1")
    have fr: "sameFrame st st2"
      using txLoop_frame [OF lp] fetchGasPrice_frame [OF gp] by (rule sameFrame_trans)
    show ?thesis
    proof (cases g)
      case (Inl e)
      with assms eb bt lp gp show ?thesis by (simp add: processBlock_def)
    next
      case (Inr price)
      with assms eb bt lp gp have "st' = snd (updateCache rt n blk ethBlock txs price st2)"
        by (simp add: processBlock_def)
      then have "cachedData st' = committed rt n ethBlock txs price (length blockTxs) st"
        using updateCache_completed(2) [OF bt eb] committed_frame [OF fr] by simp
      with eb bt lp gp Inr show ?thesis by simp
    qed
  qed
qed


lemma fetchTry_failed:
  assumes "fetchTry rt st = (r, st')" "r \<noteq> Completed"
  shows "sameFrame st st'"
proof -
  obtain b st0 where fb: "fetchBlock rt st = (b, st0)" by (cases "fetchBlock rt st")
  note fr = fetchBlock_frame [OF fb]
  show ?thesis
  proof (cases b)
    case (Inl e)
    with assms fb fr show ?thesis by (simp add: fetchTry_def)
  next
    case (Inr t)
    obtain hex n blk where t: "t = (hex, n, blk)" by (cases t)
    show ?thesis
    proof (cases "truthy blk")
      case False
      with assms fb fr Inr t show ?thesis by (auto simp: fetchTry_def)
    next
      case True
      with assms fb Inr t have "processBlock rt n blk st0 = (r, st')"
        by (simp add: fetchTry_def)
      from processBlock_failed [OF this assms(2)] fr show ?thesis
        by (blast intro: sameFrame_trans)
    qed
  qed
qed

lemma fetch_failed:
  assumes "fst (fetchTry rt st) \<noteq> Completed"
  shows "sameFrame st (fetchLatestBlockData rt st)"
proof -
  obtain r st' where ft: "fetchTry rt st = (r, st')" by (cases "fetchTry rt st")
  with assms have "r \<noteq> Completed" by simp
  from fetchTry_failed [OF ft this] ft show ?thesis
    by (cases r) (simp_all add: fetchLatestBlockData_def)
qed

lemma fetch_completed:
  assumes "fst (fetchTry rt st) = Completed"
  shows "\<exists>hex n blk st0 ethBlock blockTxs txs st1 g st2.
           fetchBlock rt st = (Inr (hex, n, blk), st0) \<and> truthy blk
           \<and> buildEthBlock rt blk = Inr ethBlock \<and> blockTransactions blk = Inr blockTxs
           \<and> txLoop rt (take 15 blockTxs) [] st0 = (txs, st1)
           \<and> fetchGasPrice rt st1 = (Inr g, st2)
           \<and> cachedData (fetchLatestBlockData rt st)
               = committed rt n ethBlock txs g (length blockTxs) st"
proof -
  obtain st' where ft: "fetchTry rt st = (Completed, st')"
    using assms by (cases "fetchTry rt st") simp
  obtain b st0 where fb: "fetchBlock rt st = (b, st0)" by (cases "fetchBlock rt st")
  note fr = fetchBlock_frame [OF fb]
  show ?thesis
  proof (cases b)
    case (Inl e)
    with ft fb show ?thesis by (simp add: fetchTry_def)
  next
    case (Inr t)
    obtain hex n blk where t: "t = (hex, n, blk)" by (cases t)
    show ?thesis
    proof (cases "truthy blk")
      case False
      with ft fb Inr t show ?thesis by (simp add: fetchTry_def)
    next
      case True
      with ft fb Inr t have pb: "processBlock rt n blk st0 = (Completed, st')"
        by (simp add: fetchTry_def)
      from processBlock_completed [OF pb] obtain ethBlock blockTxs txs st1 g st2
        where *: "buildEthBlock rt blk = Inr ethBlock" "blockTransactions blk = Inr blockTxs"
          "txLoop rt (take 15 blockTxs) [] st0 = (txs, st1)"
          "fetchGasPrice rt st1 = (Inr g, st2)"
          "cachedData st' = committed rt n ethBlock txs g (length blockTxs) st0"
        by blast
      have "fetchLatestBlockData rt st = st'"
        using ft by (simp add: fetchLatestBlockData_def)
      with * committed_frame [OF fr] fb Inr t True show ?thesis by simp
    qed
  qed
qed



subsection \<open>The requests sent\<close>

lemma fetchTx_log: "fetchTx rt tx st = (r, st') \<Longrightarrow> prefix (rpcLog st) (rpcLog st')"
  by (auto simp: fetchTx_def split: if_splits dest!: rpcCall_log)

lemma txStep_log: "txStep rt tx st = (r, st') \<Longrightarrow> prefix (rpcLog st) (rpcLog st')"
  by (auto simp: txStep_def split: sum.splits prod.splits if_splits dest!: fetchTx_log)

lemma txLoop_log: "txLoop rt txs acc st = (r, st') \<Longrightarrow> prefix (rpcLog st) (rpcLog st')"
proof (induction txs arbitrary: acc st)
  case Nil
  then show ?case by simp
next
  case (Cons tx rest)
  obtain o1 st1 where step: "txStep rt tx st = (o1, st1)" by (cases "txStep rt tx st")
  from Cons.prems step obtain acc' where "txLoop rt rest acc' st1 = (r, st')"
    by (cases o1) auto
  then have "prefix (rpcLog st1) (rpcLog st')" by (rule Cons.IH)
  with txStep_log [OF step] show ?case by (rule prefix_order.trans)
qed

lemma fetchGasPrice_log: "fetchGasPrice rt st = (r, st') \<Longrightarrow> prefix (rpcLog st) (rpcLog st')"
  by (auto simp: fetchGasPrice_def split: sum.splits prod.splits dest!: rpcCall_log)

lemma updateCache_log: "rpcLog (snd (updateCache rt n blk eb txs g st)) = rpcLog st"
  by (simp add: updateCache_def Let_def nextRandom_def readClock_def split: sum.splits)

lemma processBlock_log:
  assumes "processBlock rt n blk st = (r, st')"
  shows "prefix (rpcLog st) (rpcLog st')"
proof (cases "buildEthBlock rt blk")
  case (Inl e)
  with assms show ?thesis by (simp add: processBlock_def)
next
  case eb: (Inr ethBlock)
  show ?thesis
  proof (cases "blockTransactions blk")
    case (Inl e)
    with assms eb show ?thesis by (simp add: processBlock_def)
  next
    case bt: (Inr blockTxs)
    obtain txs st1 where lp: "txLoop rt (take 15 blockTxs) [] st = (txs, st1)"
      by (cases "txLoop rt (take 15 blockTxs) [] st")
    obtain g st2 where gp: "fetchGasPrice rt st1 = (g, st2)"
      by (cases "fetchGasPrice rt st1")
    have pr: "prefix (rpcLog st) (rpcLog st2)"
      using txLoop_log [OF lp] fetchGasPrice_log [OF gp] by (rule prefix_order.trans)
    show ?thesis
    proof (cases g)
      case (Inl e)
      with assms eb bt lp gp pr show ?thesis by (simp add: processBlock_def)
    next
      case (Inr price)
      with assms eb bt lp gp have "st' = snd (updateCache rt n blk ethBlock txs price st2)"
        by (simp add: processBlock_def)
      with pr show ?thesis by (simp add: updateCache_log)
    qed
  qed
qed

lemma fetchBlock_log:
  assumes "fetchBlock rt st = (r, st')"
  shows "prefix (rpcLog st @ [(''eth_blockNumber'', [])]) (rpcLog st')"
proof -
  obtain r1 st1 where c1: "rpcCall rt ''eth_blockNumber'' [] st = (r1, st1)"
    by (cases "rpcCall rt ''eth_blockNumber'' [] st")
  note l1 = rpcCall_log [OF c1]
  show ?thesis
  proof (cases r1)
    case (Inl e)
    with assms c1 l1 show ?thesis by (simp add: fetchBlock_def)
  next
    case (Inr hex)
    show ?thesis
    proof (cases "hexToDecimal rt hex")
      case (Inl e)
      with assms c1 Inr l1 show ?thesis by (simp add: fetchBlock_def)
    next
      case num: (Inr latestBlockNumber)
      obtain r2 st2 where c2: "rpcCall rt ''eth_getBlockByNumber'' [hex, JBool True] st1 = (r2, st2)"
        by (cases "rpcCall rt ''eth_getBlockByNumber'' [hex, JBool True] st1")
      from assms c1 Inr num c2 have "st' = st2" by (cases r2) (simp_all add: fetchBlock_def)
      with rpcCall_log [OF c2] l1 show ?thesis by simp
    qed
  qed
qed

lemma fetch_log:
  "prefix (rpcLog st @ [(''eth_blockNumber'', [])]) (rpcLog (fetchLatestBlockData rt st))"
proof -
  obtain b st0 where fb: "fetchBlock rt st = (b, st0)" by (cases "fetchBlock rt st")
  note p0 = fetchBlock_log [OF fb]
  obtain r st' where ft: "fetchTry rt st = (r, st')" by (cases "fetchTry rt st")
  have "prefix (rpcLog st0) (rpcLog st')"
  proof (cases b)
    case (Inl e)
    with ft fb show ?thesis by (simp add: fetchTry_def)
  next
    case (Inr t)
    obtain hex n blk where t: "t = (hex, n, blk)" by (cases t)
    show ?thesis
    proof (cases "truthy blk")
      case False
      with ft fb Inr t show ?thesis by (auto simp: fetchTry_def)
    next
      case True
      with ft fb Inr t have "processBlock rt n blk st0 = (r, st')"
        by (simp add: fetchTry_def)
      then show ?thesis by (rule processBlock_log)
    qed
  qed
  moreover have "rpcLog (fetchLatestBlockData rt st) = rpcLog st'"
    using ft by (cases r) (simp_all add: fetchLatestBlockData_def)
  ultimately show ?thesis using p0 by (simp add: prefix_order.trans)
qed

lemma fetch_log_grows: "rpcLog (fetchLatestBlockData rt st) \<noteq> rpcLog st"
  using fetch_log [of st rt] by (auto simp: prefix_def)

subsection \<open>Lists and invariants\<close>

lemma successively_take: "successively P xs \<Longrightarrow> successively P (take n xs)"
  using successively_append_iff [of P "take n xs" "drop n xs"] by simp

lemma map_filter_id_length: "length (List.map_filter id outcomes) \<le> length outcomes"
  by (induction outcomes) (auto simp: List.map_filter_simps split: option.splits)



lemma txFetches_length [simp]: "length (txFetches rt txs st) = length txs"
  by (induction txs arbitrary: st) simp_all



lemma buildEthBlock_number:
  assumes "buildEthBlock rt blk = Inr eb"
  shows "bindE (getProp blk ''number'') (hexToDecimal rt) = Inr (blk_number eb)"
proof -
  from assms obtain numberJ numberN where
    "getProp blk ''number'' = Inr numberJ" "hexToDecimal rt numberJ = Inr numberN"
    "blk_number eb = numberN"
    by (auto simp: buildEthBlock_def bindE_eq_Inr)
  then show ?thesis by simp
qed

lemma cycle_history_bounds:
  "length (blockHistory (cachedData (cycles rt n initialSys))) \<le> 20
   \<and> length (gasPriceHistory (cachedData (cycles rt n initialSys))) \<le> 50
   \<and> length (transactions (cachedData (cycles rt n initialSys))) \<le> 15"
proof (induction n)
  case 0
  show ?case by (simp add: initialSys_def initialCache_def)
next
  case (Suc n)
  let ?st = "cycles rt n initialSys"
  show ?case
  proof (cases "fst (fetchTry rt ?st) = Completed")
    case True
    from fetch_completed [OF True] obtain hex k blk st0 eb blockTxs txs st1 g st2 where
      "fetchBlock rt ?st = (Inr (hex, k, blk), st0)"
      and lp: "txLoop rt (take 15 blockTxs) [] st0 = (txs, st1)"
      and "fetchGasPrice rt st1 = (Inr g, st2)"
      and c: "cachedData (fetchLatestBlockData rt ?st) = committed rt k eb txs g (length blockTxs) ?st"
      by blast
    have "txs = List.map_filter id (txOutcomes rt (take 15 blockTxs) st0)"
      using txLoop_outcomes [of rt "take 15 blockTxs" "[]" st0] lp by simp
    then have "length txs \<le> 15"
      using map_filter_id_length [of "txOutcomes rt (take 15 blockTxs) st0"] by simp
    with c show ?thesis by (simp add: committed_def)
  next
    case False
    from fetch_failed [OF False] Suc show ?thesis by (simp add: sameFrame_def)
  qed
qed


subsection \<open>The snapshot route\<close>

lemma readClock_simps [simp]:
  "fst (readClock rt st) = dateNow rt (clockReads st)"
  "cachedData (snd (readClock rt st)) = cachedData st"
  "rpcLog (snd (readClock rt st)) = rpcLog st"
  "clockReads (snd (readClock rt st)) = Suc (clockReads st)"
  by (simp_all add: readClock_def)

lemma snapshotRoute_stale:
  "30000 < cacheAge rt st \<Longrightarrow>
     snapshotRoute rt st = (cachedData (fetchLatestBlockData rt (snd (readClock rt st))),
                            fetchLatestBlockData rt (snd (readClock rt st)))"
  by (simp add: snapshotRoute_def cacheAge_def readClock_def Let_def)

lemma snapshotRoute_fresh:
  "cacheAge rt st \<le> 30000 \<Longrightarrow> snapshotRoute rt st = (cachedData st, snd (readClock rt st))"
  by (simp add: snapshotRoute_def cacheAge_def readClock_def Let_def)

section \<open>The example environments, evaluated\<close>

lemma formatEther_one: "formatEther rt (JStr ''0xde0b6b3a7640000'') = Inr ''1.000000''"
  by code_simp

lemma formatGwei_one: "formatGwei rt (JStr ''0x3b9aca00'') = Inr ''1.00''"
  by code_simp

lemma parseInt16_0x10: "parseInt16 ''0x10'' = Finite 16"
  by code_simp

lemma parseInt16_0x11: "parseInt16 ''0x11'' = Finite 17"
  by code_simp

lemma parseInt16_0x64: "parseInt16 ''0x64'' = Finite 100"
  by code_simp

lemma normalizeTx_txCreate: "normalizeTx rt txCreate = Inr txCreated"
  by code_simp

lemma parseFloat_one: "parseFloat ''1.00'' = Finite 1"
  by code_simp

lemma blockTransactions_blockJ: "blockTransactions (blockJ num) = Inr [txCreate, JStr ''0xbb'']"
  by (simp add: blockTransactions_def blockJ_def)

lemma timestamp_blockJ: "getProp (blockJ num) ''timestamp'' = Inr (JStr ''0x64'')"
  by (simp add: blockJ_def)

lemma gasUsed_example: "numberToString rt (parseInt16 ''0x5208'') = ''21000''"
  by code_simp

lemma gasLimit_example: "numberToString rt (parseInt16 ''0x1c9c380'') = ''30000000''"
  by code_simp

lemma difficulty_example: "numberToString rt (parseInt16 ''0x0'') = ''0''"
  by code_simp

lemma buildEthBlock_blockJ: "buildEthBlock rt (blockJ num) = Inr (ethBlockOf (parseInt16 num))"
  by (simp add: buildEthBlock_def blockTransactions_blockJ)
     (simp add: blockJ_def txCreate_def orElse_def ethBlockOf_def hexToDecimal_JStr
        parseInt16_0x64 gasUsed_example gasLimit_example difficulty_example)

text \<open>
  The block whose \<^verbatim>\<open>difficulty\<close> has no string form makes line 136 throw, and an
  embedded transaction whose \<^verbatim>\<open>gas\<close> has none makes line 155 throw: the first ends
  the cycle, the second is caught in the loop and the transaction is skipped.
\<close>

lemma buildEthBlock_blockBad: "buildEthBlock rt blockBad = Inl TypeError"
  by code_simp

lemma truthy_blockBad: "truthy blockBad"
  by (simp add: blockBad_def)

lemma normalizeTx_bad_gas:
  "normalizeTx rt
     (JObj [(''hash'', JStr ''0xaa''), (''from'', JStr ''0x01''), (''to'', JNull),
            (''value'', JStr ''0xde0b6b3a7640000''), (''gasPrice'', JStr ''0x3b9aca00''),
            (''gas'', JObj [(''toString'', JNum (Finite 0))]), (''nonce'', JStr ''0x1''),
            (''blockNumber'', JStr ''0x10'')]) = Inl TypeError"
  by code_simp

lemma txStep_bad_gas:
  "txStep rt
     (JObj [(''hash'', JStr ''0xaa''), (''from'', JStr ''0x01''), (''to'', JNull),
            (''value'', JStr ''0xde0b6b3a7640000''), (''gasPrice'', JStr ''0x3b9aca00''),
            (''gas'', JObj [(''toString'', JNum (Finite 0))]), (''nonce'', JStr ''0x1''),
            (''blockNumber'', JStr ''0x10'')]) st
     = (None, st\<lparr>console := console st @ [ErrorProcessingTransaction TypeError]\<rparr>)"
  by (simp add: txStep_def fetchTx_def normalizeTx_bad_gas)

lemma truthy_blockJ: "truthy (blockJ num)"
  by (simp add: blockJ_def)

lemma fetchTx_txCreate: "fetchTx rt txCreate st = (Inr txCreate, st)"
  by (simp add: fetchTx_def txCreate_def)

lemma truthy_txCreate: "truthy txCreate"
  by (simp add: txCreate_def)

lemma txStep_txCreate: "txStep rt txCreate st = (Some txCreated, st)"
  by (simp add: txStep_def fetchTx_txCreate truthy_txCreate normalizeTx_txCreate)

lemma txStep_rejected:
  assumes "rpcReply rt (length (rpcLog st)) ''eth_getTransactionByHash'' [JStr h] = Inl e"
  shows "txStep rt (JStr h) st =
           (None, st\<lparr>rpcLog := rpcLog st @ [(''eth_getTransactionByHash'', [JStr h])],
                      console := console st @ [ErrorProcessingTransaction e]\<rparr>)"
  using assms by (simp add: txStep_def fetchTx_def rpcCall_def)


lemma rpcReply_simps [simp]:
  "rpcReply rtSame = nodeSame" "rpcReply rtNoGas = nodeNoGas"
  "rpcReply rtGrowing = nodeGrowing" "rpcReply rtBadBlock = nodeBadBlock"
  "rpcReply rtDown = (\<lambda>n method params. Inl NetworkError)"
  by (simp_all add: rtSame_def rtNoGas_def rtGrowing_def rtBadBlock_def rtDown_def)

lemma runtime_simps [simp]:
  "dateNow rtSame k = 45000 + int k" "dateNow rtNoGas k = 45000 + int k"
  "dateNow rtGrowing k = 45000 + int k" "dateNow rtBadBlock k = 45000 + int k"
  "dateNow rtDown k = 45000 + int k"
  by (simp_all add: rtSame_def rtNoGas_def rtGrowing_def rtBadBlock_def rtDown_def)

lemma detail_rejected:
  "rpcReply rtSame k ''eth_getTransactionByHash'' ps = Inl NetworkError"
  "rpcReply rtNoGas k ''eth_getTransactionByHash'' ps = Inl NetworkError"
  "rpcReply rtGrowing k ''eth_getTransactionByHash'' ps = Inl NetworkError"
  by (simp_all add: nodeSame_def nodeNoGas_def nodeGrowing_def)

lemma txLoop_example:
  assumes "\<And>k ps. rpcReply rt k ''eth_getTransactionByHash'' ps = Inl NetworkError"
  shows "txLoop rt [txCreate, JStr ''0xbb''] [] st =
     ([txCreated],
      st\<lparr>rpcLog := rpcLog st @ [(''eth_getTransactionByHash'', [JStr ''0xbb''])],
          console := console st @ [ErrorProcessingTransaction NetworkError]\<rparr>)"
  using assms by (simp add: txStep_txCreate txStep_rejected)

lemma txOutcomes_example:
  assumes "\<And>k ps. rpcReply rt k ''eth_getTransactionByHash'' ps = Inl NetworkError"
  shows "txOutcomes rt [txCreate, JStr ''0xbb''] st = [Some txCreated, None]"
  using assms by (simp add: txStep_txCreate txStep_rejected)


lemma gasPrice_served:
  "rpcReply rtSame k ''eth_gasPrice'' [] = reply (JStr ''0x3b9aca00'')"
  "rpcReply rtGrowing k ''eth_gasPrice'' [] = reply (JStr ''0x3b9aca00'')"
  by (simp_all add: nodeSame_def nodeGrowing_def)

lemma fetchGasPrice_example:
  assumes "\<And>k. rpcReply rt k ''eth_gasPrice'' [] = reply (JStr ''0x3b9aca00'')"
  shows "fetchGasPrice rt st = (Inr ''1.00'', st\<lparr>rpcLog := rpcLog st @ [(''eth_gasPrice'', [])]\<rparr>)"
  using assms by (simp add: fetchGasPrice_def rpcCall_def reply_def formatGwei_one)

lemma fetchGasPrice_rtNoGas:
  "fetchGasPrice rtNoGas st = (Inl NetworkError, st\<lparr>rpcLog := rpcLog st @ [(''eth_gasPrice'', [])]\<rparr>)"
  by (simp add: fetchGasPrice_def rpcCall_def nodeNoGas_def)

lemma fetchBlock_rtSame:
  "fetchBlock rtSame st =
     (Inr (JStr ''0x10'', Finite 16, blockJ ''0x10''),
      st\<lparr>rpcLog := rpcLog st @ take 2 (exampleRequests ''0x10'')\<rparr>)"
  by (simp add: fetchBlock_def rpcCall_def nodeSame_def reply_def hexToDecimal_JStr
      parseInt16_0x10 exampleRequests_def)

lemma fetchBlock_rtBadBlock:
  "fetchBlock rtBadBlock st =
     (Inr (JStr ''0x10'', Finite 16, blockBad),
      st\<lparr>rpcLog := rpcLog st @ take 2 (exampleRequests ''0x10'')\<rparr>)"
  by (simp add: fetchBlock_def rpcCall_def nodeBadBlock_def nodeSame_def reply_def
      hexToDecimal_JStr parseInt16_0x10 exampleRequests_def)

text \<open>
  A block number without string form makes line 117 throw after the first request, before
  the block is asked for; and a block number that is \<^verbatim>\<open>undefined\<close> goes on the wire
  as \<^verbatim>\<open>null\<close>.
\<close>

lemma fetchBlock_bad_number:
  assumes "rpcReply rt (length (rpcLog st)) ''eth_blockNumber'' [] = reply (JObj [(''toString'', v)])"
  shows "fetchBlock rt st =
           (Inl TypeError, st\<lparr>rpcLog := rpcLog st @ [(''eth_blockNumber'', [])]\<rparr>)"
  using assms by (simp add: fetchBlock_def rpcCall_def reply_def hexToDecimal_def)

lemma rpcCall_undefined_param:
  "rpcLog (snd (rpcCall rt method [JUndefined, JBool True] st))
     = rpcLog st @ [(method, [JNull, JBool True])]"
  by (simp add: rpcCall_def Let_def split: sum.splits)

lemma fetchBlock_rtNoGas:
  "fetchBlock rtNoGas st =
     (Inr (JStr ''0x10'', Finite 16, blockJ ''0x10''),
      st\<lparr>rpcLog := rpcLog st @ take 2 (exampleRequests ''0x10'')\<rparr>)"
  by (simp add: fetchBlock_def rpcCall_def nodeNoGas_def nodeSame_def reply_def
      hexToDecimal_JStr parseInt16_0x10 exampleRequests_def)

lemma fetchBlock_rtGrowing:
  "length (rpcLog st) < 3 \<Longrightarrow>
     fetchBlock rtGrowing st =
       (Inr (JStr ''0x10'', parseInt16 ''0x10'', blockJ ''0x10''),
        st\<lparr>rpcLog := rpcLog st @ take 2 (exampleRequests ''0x10'')\<rparr>)"
  "4 \<le> length (rpcLog st) \<Longrightarrow>
     fetchBlock rtGrowing st =
       (Inr (JStr ''0x11'', parseInt16 ''0x11'', blockJ ''0x11''),
        st\<lparr>rpcLog := rpcLog st @ take 2 (exampleRequests ''0x11'')\<rparr>)"
  by (simp_all add: fetchBlock_def rpcCall_def nodeGrowing_def reply_def exampleRequests_def
      hexToDecimal_JStr)

lemma example_cycle:
  assumes fb: "fetchBlock rt st =
      (Inr (JStr num, parseInt16 num, blockJ num),
       st\<lparr>rpcLog := rpcLog st @ take 2 (exampleRequests num)\<rparr>)"
    and rd: "\<And>k ps. rpcReply rt k ''eth_getTransactionByHash'' ps = Inl NetworkError"
    and gp: "\<And>k. rpcReply rt k ''eth_gasPrice'' [] = reply (JStr ''0x3b9aca00'')"
  shows "fetchTry rt st = (Completed, exampleResult rt num st)"
  unfolding fetchTry_def fb
  by (simp add: truthy_blockJ processBlock_def buildEthBlock_blockJ blockTransactions_blockJ
        txLoop_example [OF rd] fetchGasPrice_example [OF gp] updateCache_def timestamp_blockJ
        hexToDecimal_JStr parseInt16_0x64
        Let_def nextRandom_def readClock_def exampleResult_def committed_def exampleRequests_def
        ethBlockOf_def
      del: txLoop.simps)

lemma cycle_rtSame: "fetchTry rtSame st = (Completed, exampleResult rtSame ''0x10'' st)"
  by (rule example_cycle [OF _ detail_rejected(1) gasPrice_served(1)])
     (simp add: fetchBlock_rtSame parseInt16_0x10)

lemma fetch_rtSame: "fetchLatestBlockData rtSame st = exampleResult rtSame ''0x10'' st"
  by (simp add: fetchLatestBlockData_def cycle_rtSame)

lemma cycle_rtNoGas: "fst (fetchTry rtNoGas st) = Threw NetworkError"
  by (simp add: fetchTry_def fetchBlock_rtNoGas truthy_blockJ processBlock_def
      buildEthBlock_blockJ blockTransactions_blockJ txLoop_example [OF detail_rejected(2)]
      fetchGasPrice_rtNoGas del: txLoop.simps)

lemma cycle_rtBadBlock: "fst (fetchTry rtBadBlock st) = Threw TypeError"
  by (simp add: fetchTry_def fetchBlock_rtBadBlock truthy_blockBad processBlock_def
      buildEthBlock_blockBad)

lemma cycle_rtDown: "fst (fetchTry rtDown st) = Threw NetworkError"
  by (simp add: fetchTry_def fetchBlock_def rpcCall_def)

lemma cycle_rtGrowing:
  "length (rpcLog st) < 3 \<Longrightarrow>
     fetchTry rtGrowing st = (Completed, exampleResult rtGrowing ''0x10'' st)"
  "4 \<le> length (rpcLog st) \<Longrightarrow>
     fetchTry rtGrowing st = (Completed, exampleResult rtGrowing ''0x11'' st)"
  by (rule example_cycle [OF _ detail_rejected(3) gasPrice_served(2)],
      simp add: fetchBlock_rtGrowing)+

lemma fetch_rtGrowing:
  "length (rpcLog st) < 3 \<Longrightarrow>
     fetchLatestBlockData rtGrowing st = exampleResult rtGrowing ''0x10'' st"
  "4 \<le> length (rpcLog st) \<Longrightarrow>
     fetchLatestBlockData rtGrowing st = exampleResult rtGrowing ''0x11'' st"
  by (simp_all add: fetchLatestBlockData_def cycle_rtGrowing)

lemma number_blockJ: "getProp (blockJ num) ''number'' = Inr (JStr num)"
  by (simp add: blockJ_def)

lemma fetch_rtDown:
  "fetchLatestBlockData rtDown st =
     st\<lparr>rpcLog := rpcLog st @ [(''eth_blockNumber'', [])],
        console := console st @ [ErrorFetchingEthereumData NetworkError]\<rparr>"
  by (simp add: fetchLatestBlockData_def fetchTry_def fetchBlock_def rpcCall_def)

section \<open>The claims\<close>

text \<open>
  C1. A refresh cycle that fails, because the block fetch returns no block
  (\<open>ReturnedNoBlock\<close>) or because an error is thrown anywhere in the try block
  (\<open>Threw\<close>: a request that fails, a reply without the expected shape, a field that
  has no string form), leaves the cache exactly as it was: no field of the cached
  snapshot, including \<open>blockHistory\<close>, \<open>gasPriceHistory\<close> and \<open>lastUpdate\<close>, is
  changed.
\<close>

theorem failed_cycle_leaves_cache_unchanged:
  "fst (fetchTry rt st) \<noteq> Completed \<Longrightarrow> cachedData (fetchLatestBlockData rt st) = cachedData st"
  using fetch_failed [of rt st] by (simp add: sameFrame_def)

text \<open>
  The cache filled by one cycle survives a later cycle whose gas price request fails
  after the block and its transactions were processed, and one whose block has a
  \<^verbatim>\<open>difficulty\<close> without string form.
\<close>

theorem failed_cycle_leaves_cache_unchanged_witness:
  "fst (fetchTry rtNoGas (fetchLatestBlockData rtSame initialSys)) = Threw NetworkError
   \<and> cachedData (fetchLatestBlockData rtNoGas (fetchLatestBlockData rtSame initialSys))
       = cachedData (fetchLatestBlockData rtSame initialSys)
   \<and> fst (fetchTry rtBadBlock (fetchLatestBlockData rtSame initialSys)) = Threw TypeError
   \<and> cachedData (fetchLatestBlockData rtBadBlock (fetchLatestBlockData rtSame initialSys))
       = cachedData (fetchLatestBlockData rtSame initialSys)
   \<and> blockHistory (cachedData (fetchLatestBlockData rtSame initialSys))
       = [ethBlockOf (Finite 16)]"
proof -
  let ?st = "fetchLatestBlockData rtSame initialSys"
  have noGas: "fst (fetchTry rtNoGas ?st) = Threw NetworkError" by (rule cycle_rtNoGas)
  have bad: "fst (fetchTry rtBadBlock ?st) = Threw TypeError" by (rule cycle_rtBadBlock)
  have failed: "fst (fetchTry rtNoGas ?st) \<noteq> Completed" "fst (fetchTry rtBadBlock ?st) \<noteq> Completed"
    by (simp_all add: noGas bad)
  have "blockHistory (cachedData ?st) = [ethBlockOf (Finite 16)]"
    by (simp add: fetch_rtSame exampleResult_def committed_def initialSys_def initialCache_def
        parseInt16_0x10)
  with noGas bad failed_cycle_leaves_cache_unchanged [OF failed(1)]
    failed_cycle_leaves_cache_unchanged [OF failed(2)]
  show ?thesis by simp
qed

text \<open>
  C2, as the code has it. The cycle pushes the block it fetched whatever its number, so
  the history is ordered by fetch. For every sequence of refresh cycles from the empty
  cache in which each completed cycle fetched a block whose number is greater than that
  of the newest entry of the history at that time, the block history is strictly ordered
  newest-first by block number: every entry's number is greater than that of the entry
  after it.
\<close>

theorem history_strict_when_chain_grows:
  "(\<forall>k<n. observedNewer rt (cycles rt k initialSys)) \<Longrightarrow>
     strictlyNewestFirst (blockHistory (cachedData (cycles rt n initialSys)))"
proof (induction n)
  case 0
  show ?case by (simp add: strictlyNewestFirst_def initialSys_def initialCache_def)
next
  case (Suc n)
  let ?st = "cycles rt n initialSys"
  let ?P = "\<lambda>a b. num_less (blk_number b) (blk_number a)"
  from Suc have ih: "successively ?P (blockHistory (cachedData ?st))"
    by (simp add: strictlyNewestFirst_def)
  from Suc.prems have newer: "observedNewer rt ?st" by simp
  show ?case
  proof (cases "fst (fetchTry rt ?st) = Completed")
    case False
    from fetch_failed [OF False] ih show ?thesis
      by (simp add: sameFrame_def strictlyNewestFirst_def)
  next
    case True
    from fetch_completed [OF True] obtain hex k blk st0 eb blockTxs txs st1 g st2 where
      fb: "fetchBlock rt ?st = (Inr (hex, k, blk), st0)"
      and eb: "buildEthBlock rt blk = Inr eb"
      and "txLoop rt (take 15 blockTxs) [] st0 = (txs, st1)"
      and "fetchGasPrice rt st1 = (Inr g, st2)"
      and c: "cachedData (fetchLatestBlockData rt ?st) = committed rt k eb txs g (length blockTxs) ?st"
      by blast
    from newer True fb buildEthBlock_number [OF eb]
    have "list_all (\<lambda>b. num_less (blk_number b) (blk_number eb))
            (take 1 (blockHistory (cachedData ?st)))"
      by (simp add: observedNewer_def)
    with ih have "successively ?P (eb # blockHistory (cachedData ?st))"
      by (cases "blockHistory (cachedData ?st)") simp_all
    then have "successively ?P (take 20 (eb # blockHistory (cachedData ?st)))"
      by (rule successively_take)
    with c show ?thesis by (simp add: strictlyNewestFirst_def committed_def)
  qed
qed

text \<open>The chain grows from block 16 to block 17 between two cycles.\<close>

theorem history_strict_when_chain_grows_witness:
  "observedNewer rtGrowing (cycles rtGrowing 0 initialSys)
   \<and> observedNewer rtGrowing (cycles rtGrowing (Suc 0) initialSys)
   \<and> blockHistory (cachedData (cycles rtGrowing (Suc (Suc 0)) initialSys))
       = [ethBlockOf (Finite 17), ethBlockOf (Finite 16)]
   \<and> strictlyNewestFirst (blockHistory (cachedData (cycles rtGrowing (Suc (Suc 0)) initialSys)))"
proof -
  have log0: "length (rpcLog initialSys) < 3" by (simp add: initialSys_def)
  have s1: "cycles rtGrowing (Suc 0) initialSys = exampleResult rtGrowing ''0x10'' initialSys"
    by (simp add: fetch_rtGrowing(1) [OF log0])
  have log1: "4 \<le> length (rpcLog (exampleResult rtGrowing ''0x10'' initialSys))"
    by (simp add: exampleResult_def exampleRequests_def)
  have h1: "blockHistory (cachedData (exampleResult rtGrowing ''0x10'' initialSys))
      = [ethBlockOf (Finite 16)]"
    by (simp add: exampleResult_def committed_def initialSys_def initialCache_def parseInt16_0x10)
  have h0: "blockHistory (cachedData initialSys) = []"
    by (simp add: initialSys_def initialCache_def)
  have n0: "observedNewer rtGrowing (cycles rtGrowing 0 initialSys)"
    by (simp add: observedNewer_def fetchBlock_rtGrowing(1) [OF log0] number_blockJ h0
        hexToDecimal_JStr)
  have n1: "observedNewer rtGrowing (cycles rtGrowing (Suc 0) initialSys)"
    unfolding s1
    by (simp add: observedNewer_def fetchBlock_rtGrowing(2) [OF log1] number_blockJ h1
        hexToDecimal_JStr parseInt16_0x11 ethBlockOf_def)
  have "cycles rtGrowing (Suc (Suc 0)) initialSys
          = fetchLatestBlockData rtGrowing (cycles rtGrowing (Suc 0) initialSys)"
    by (rule cycles.simps(2))
  then have s2: "cycles rtGrowing (Suc (Suc 0)) initialSys
          = exampleResult rtGrowing ''0x11'' (exampleResult rtGrowing ''0x10'' initialSys)"
    unfolding s1 by (simp add: fetch_rtGrowing(2) [OF log1])
  have h2: "blockHistory (cachedData (cycles rtGrowing (Suc (Suc 0)) initialSys))
       = [ethBlockOf (Finite 17), ethBlockOf (Finite 16)]"
    unfolding s2 using h1 by (simp add: exampleResult_def committed_def parseInt16_0x11)
  have "\<forall>k<Suc (Suc 0). observedNewer rtGrowing (cycles rtGrowing k initialSys)"
    using n0 n1 by (simp add: less_Suc_eq)
  from history_strict_when_chain_grows [OF this] n0 n1 h2 show ?thesis by simp
qed

text \<open>
  C2 as stated fails: two cycles that find the same latest block, as a cycle 15 seconds
  after the previous one may, leave block 16 twice in the history.
\<close>

theorem history_repeats_block_counterexample:
  "blockHistory (cachedData (cycles rtSame (Suc (Suc 0)) initialSys))
     = [ethBlockOf (Finite 16), ethBlockOf (Finite 16)]
   \<and> \<not> strictlyNewestFirst (blockHistory (cachedData (cycles rtSame (Suc (Suc 0)) initialSys)))"
proof -
  have h: "blockHistory (cachedData (cycles rtSame (Suc (Suc 0)) initialSys))
     = [ethBlockOf (Finite 16), ethBlockOf (Finite 16)]"
    by (simp add: fetch_rtSame exampleResult_def committed_def initialSys_def initialCache_def
        parseInt16_0x10)
  show ?thesis unfolding h by (simp add: strictlyNewestFirst_def ethBlockOf_def)
qed

text \<open>
  C3. After any sequence of refresh cycles from the empty cache, the block history has at
  most 20 entries and the gas-price history at most 50. Each holds the most recently
  pushed entry first: a completed cycle puts its block, which is also the current block,
  in front of the previous block history, and its gas-price sample, taken for the
  current network block number, in front of the previous gas-price history, the result
  cut to 20 and 50 entries; a cycle that does not complete leaves both as they were.
\<close>

theorem histories_bounded_newest_first:
  "length (blockHistory (cachedData (cycles rt n initialSys))) \<le> 20
   \<and> length (gasPriceHistory (cachedData (cycles rt n initialSys))) \<le> 50
   \<and> (fst (fetchTry rt (cycles rt n initialSys)) = Completed \<longrightarrow>
        (\<exists>b p. block (cachedData (cycles rt (Suc n) initialSys)) = Some b
           \<and> blockHistory (cachedData (cycles rt (Suc n) initialSys))
               = take 20 (b # blockHistory (cachedData (cycles rt n initialSys)))
           \<and> gpp_blockNumber p
               = net_blockNumber (networkInfo (cachedData (cycles rt (Suc n) initialSys)))
           \<and> gasPriceHistory (cachedData (cycles rt (Suc n) initialSys))
               = take 50 (p # gasPriceHistory (cachedData (cycles rt n initialSys)))))
   \<and> (fst (fetchTry rt (cycles rt n initialSys)) \<noteq> Completed \<longrightarrow>
        blockHistory (cachedData (cycles rt (Suc n) initialSys))
          = blockHistory (cachedData (cycles rt n initialSys))
        \<and> gasPriceHistory (cachedData (cycles rt (Suc n) initialSys))
          = gasPriceHistory (cachedData (cycles rt n initialSys)))"
proof (intro conjI impI)
  let ?st = "cycles rt n initialSys"
  show "length (blockHistory (cachedData ?st)) \<le> 20"
    and "length (gasPriceHistory (cachedData ?st)) \<le> 50"
    using cycle_history_bounds [of rt n] by simp_all
  {
    assume cmpl: "fst (fetchTry rt ?st) = Completed"
    from fetch_completed [OF cmpl] obtain k eb txs g m where
      c: "cachedData (fetchLatestBlockData rt ?st) = committed rt k eb txs g m ?st"
      by blast
    let ?p = "\<lparr>gpp_blockNumber = k, gpp_gasPrice = parseFloat g,
                gpp_timestamp = blk_timestamp eb\<rparr>"
    have "block (cachedData (cycles rt (Suc n) initialSys)) = Some eb
          \<and> blockHistory (cachedData (cycles rt (Suc n) initialSys))
              = take 20 (eb # blockHistory (cachedData ?st))
          \<and> gpp_blockNumber ?p
              = net_blockNumber (networkInfo (cachedData (cycles rt (Suc n) initialSys)))
          \<and> gasPriceHistory (cachedData (cycles rt (Suc n) initialSys))
              = take 50 (?p # gasPriceHistory (cachedData ?st))"
      by (simp add: c committed_def)
    then show "\<exists>b p. block (cachedData (cycles rt (Suc n) initialSys)) = Some b
           \<and> blockHistory (cachedData (cycles rt (Suc n) initialSys))
               = take 20 (b # blockHistory (cachedData ?st))
           \<and> gpp_blockNumber p
               = net_blockNumber (networkInfo (cachedData (cycles rt (Suc n) initialSys)))
           \<and> gasPriceHistory (cachedData (cycles rt (Suc n) initialSys))
               = take 50 (p # gasPriceHistory (cachedData ?st))"
      by blast
  }
  {
    assume failed: "fst (fetchTry rt ?st) \<noteq> Completed"
    from fetch_failed [OF failed]
    show "blockHistory (cachedData (cycles rt (Suc n) initialSys)) = blockHistory (cachedData ?st)"
      and "gasPriceHistory (cachedData (cycles rt (Suc n) initialSys))
             = gasPriceHistory (cachedData ?st)"
      by (simp_all add: sameFrame_def)
  }
qed

text \<open>
  Two cycles against the node that always serves block 16, and a first cycle that a
  TypeError ends.
\<close>

theorem histories_bounded_newest_first_witness:
  "fst (fetchTry rtSame (cycles rtSame (Suc 0) initialSys)) = Completed
   \<and> blockHistory (cachedData (cycles rtSame (Suc (Suc 0)) initialSys))
       = [ethBlockOf (Finite 16), ethBlockOf (Finite 16)]
   \<and> length (gasPriceHistory (cachedData (cycles rtSame (Suc (Suc 0)) initialSys))) = 2
   \<and> fst (fetchTry rtBadBlock (cycles rtBadBlock 0 initialSys)) = Threw TypeError
   \<and> blockHistory (cachedData (cycles rtBadBlock (Suc 0) initialSys)) = []
   \<and> gasPriceHistory (cachedData (cycles rtBadBlock (Suc 0) initialSys)) = []"
proof -
  have bad: "fst (fetchTry rtBadBlock (cycles rtBadBlock 0 initialSys)) = Threw TypeError"
    by (simp add: cycle_rtBadBlock)
  then have failed: "fst (fetchTry rtBadBlock (cycles rtBadBlock 0 initialSys)) \<noteq> Completed"
    by simp
  have empty: "blockHistory (cachedData (cycles rtBadBlock 0 initialSys)) = []"
    "gasPriceHistory (cachedData (cycles rtBadBlock 0 initialSys)) = []"
    by (simp_all add: initialSys_def initialCache_def)
  from histories_bounded_newest_first [of rtBadBlock 0] failed empty
  have kept: "blockHistory (cachedData (cycles rtBadBlock (Suc 0) initialSys)) = []"
    "gasPriceHistory (cachedData (cycles rtBadBlock (Suc 0) initialSys)) = []"
    by metis+
  have cmpl: "fst (fetchTry rtSame (cycles rtSame (Suc 0) initialSys)) = Completed"
    by (simp add: cycle_rtSame)
  have before: "blockHistory (cachedData (cycles rtSame (Suc 0) initialSys)) = [ethBlockOf (Finite 16)]"
    "length (gasPriceHistory (cachedData (cycles rtSame (Suc 0) initialSys))) = 1"
    by (simp_all add: fetch_rtSame exampleResult_def committed_def initialSys_def initialCache_def
        parseInt16_0x10)
  have now: "block (cachedData (cycles rtSame (Suc (Suc 0)) initialSys)) = Some (ethBlockOf (Finite 16))"
    by (simp add: fetch_rtSame exampleResult_def committed_def parseInt16_0x10)
  from histories_bounded_newest_first [of rtSame "Suc 0"] cmpl before now
  have "blockHistory (cachedData (cycles rtSame (Suc (Suc 0)) initialSys))
       = [ethBlockOf (Finite 16), ethBlockOf (Finite 16)]
   \<and> length (gasPriceHistory (cachedData (cycles rtSame (Suc (Suc 0)) initialSys))) = 2"
    by auto
  with cmpl bad kept show ?thesis by simp
qed



text \<open>
  C5. A completed refresh cycle over a block with \<open>K\<close> transactions builds its
  transaction list from the first \<open>min K 15\<close> transactions of the block, in block order:
  the list holds what the iterations over these entries pushed, in that order. After any
  sequence of cycles the cached transaction list has at most 15 entries.
\<close>

theorem transactions_are_first_fifteen:
  "(fst (fetchTry rt st) = Completed \<longrightarrow>
      (\<exists>hex n blk st0 blockTxs.
          fetchBlock rt st = (Inr (hex, n, blk), st0)
          \<and> blockTransactions blk = Inr blockTxs
          \<and> length (take 15 blockTxs) = min (length blockTxs) 15
          \<and> transactions (cachedData (fetchLatestBlockData rt st))
              = List.map_filter id (txOutcomes rt (take 15 blockTxs) st0)
          \<and> length (transactions (cachedData (fetchLatestBlockData rt st))) \<le> 15))
   \<and> length (transactions (cachedData (cycles rt m initialSys))) \<le> 15"
proof (intro conjI impI)
  show "length (transactions (cachedData (cycles rt m initialSys))) \<le> 15"
    using cycle_history_bounds [of rt m] by simp
  assume cmpl: "fst (fetchTry rt st) = Completed"
  from fetch_completed [OF cmpl] obtain hex n blk st0 eb blockTxs txs st1 g st2 where
    fb: "fetchBlock rt st = (Inr (hex, n, blk), st0)"
    and bt: "blockTransactions blk = Inr blockTxs"
    and lp: "txLoop rt (take 15 blockTxs) [] st0 = (txs, st1)"
    and "fetchGasPrice rt st1 = (Inr g, st2)"
    and c: "cachedData (fetchLatestBlockData rt st) = committed rt n eb txs g (length blockTxs) st"
    by blast
  have txs: "txs = List.map_filter id (txOutcomes rt (take 15 blockTxs) st0)"
    using txLoop_outcomes [of rt "take 15 blockTxs" "[]" st0] lp by simp
  then have "length txs \<le> 15"
    using map_filter_id_length [of "txOutcomes rt (take 15 blockTxs) st0"] by simp
  with fb bt txs c
  show "\<exists>hex n blk st0 blockTxs.
          fetchBlock rt st = (Inr (hex, n, blk), st0)
          \<and> blockTransactions blk = Inr blockTxs
          \<and> length (take 15 blockTxs) = min (length blockTxs) 15
          \<and> transactions (cachedData (fetchLatestBlockData rt st))
              = List.map_filter id (txOutcomes rt (take 15 blockTxs) st0)
          \<and> length (transactions (cachedData (fetchLatestBlockData rt st))) \<le> 15"
    by (simp add: committed_def)
qed

text \<open>Block 16 has two transactions; the first is stored.\<close>

theorem transactions_are_first_fifteen_witness:
  "fst (fetchTry rtSame initialSys) = Completed
   \<and> blockTransactions (blockJ ''0x10'') = Inr [txCreate, JStr ''0xbb'']
   \<and> transactions (cachedData (fetchLatestBlockData rtSame initialSys)) = [txCreated]"
proof -
  have cmpl: "fst (fetchTry rtSame initialSys) = Completed" by (simp add: cycle_rtSame)
  from transactions_are_first_fifteen [of rtSame initialSys 0] cmpl
  obtain hex n blk st0 blockTxs where
    fb: "fetchBlock rtSame initialSys = (Inr (hex, n, blk), st0)"
    and bt: "blockTransactions blk = Inr blockTxs"
    and txs: "transactions (cachedData (fetchLatestBlockData rtSame initialSys))
       = List.map_filter id (txOutcomes rtSame (take 15 blockTxs) st0)"
    by blast
  from fb have "blk = blockJ ''0x10''" by (simp add: fetchBlock_rtSame)
  with bt have "blockTxs = [txCreate, JStr ''0xbb'']" by (simp add: blockTransactions_blockJ)
  with txs have "transactions (cachedData (fetchLatestBlockData rtSame initialSys)) = [txCreated]"
    by (simp add: List.map_filter_simps txOutcomes_example [OF detail_rejected(1)]
        del: txOutcomes.simps)
  with cmpl show ?thesis by (simp add: blockTransactions_blockJ)
qed

text \<open>
  C6. A transaction normalised from data whose \<^verbatim>\<open>to\<close> field is absent or
  \<^verbatim>\<open>null\<close> has the recipient \<^verbatim>\<open>'Contract Creation'\<close>, and no normalised
  transaction has a recipient that is \<^verbatim>\<open>null\<close> or \<^verbatim>\<open>undefined\<close>.
\<close>

theorem absent_recipient_is_contract_creation:
  "normalizeTx rt txData = Inr t \<Longrightarrow>
     (getProp txData ''to'' = Inr JUndefined \<or> getProp txData ''to'' = Inr JNull
        \<longrightarrow> tx_to t = JStr ''Contract Creation'')
     \<and> tx_to t \<noteq> JNull \<and> tx_to t \<noteq> JUndefined"
proof -
  assume n: "normalizeTx rt txData = Inr t"
  then obtain toJ where to: "getProp txData ''to'' = Inr toJ"
    and t: "tx_to t = orElse toJ (JStr ''Contract Creation'')"
    by (auto simp: normalizeTx_def bindE_eq_Inr)
  have "truthy (tx_to t)" unfolding t by (simp add: orElse_def)
  then have "tx_to t \<noteq> JNull \<and> tx_to t \<noteq> JUndefined" by auto
  moreover have "toJ = JUndefined \<or> toJ = JNull \<Longrightarrow> tx_to t = JStr ''Contract Creation''"
    unfolding t by (auto simp: orElse_def)
  ultimately show ?thesis using to by auto
qed

text \<open>The embedded transaction of the examples has \<^verbatim>\<open>to: null\<close>.\<close>

theorem absent_recipient_is_contract_creation_witness:
  "normalizeTx rtSame txCreate = Inr txCreated
   \<and> getProp txCreate ''to'' = Inr JNull
   \<and> tx_to txCreated = JStr ''Contract Creation''"
proof -
  have n: "normalizeTx rtSame txCreate = Inr txCreated" by (rule normalizeTx_txCreate)
  have to: "getProp txCreate ''to'' = Inr JNull" by (simp add: txCreate_def)
  from absent_recipient_is_contract_creation [OF n] n to show ?thesis by simp
qed

text \<open>
  C7. Ether formatting of the wei value \<^verbatim>\<open>"0xde0b6b3a7640000"\<close> (\<open>10^18\<close> wei) gives
  exactly \<^verbatim>\<open>"1.000000"\<close>, and gwei formatting of \<^verbatim>\<open>"0x3b9aca00"\<close> (\<open>10^9\<close> wei) gives
  exactly \<^verbatim>\<open>"1.00"\<close>: the division by \<open>10^18\<close> is rendered with 6 decimals, the one by
  \<open>10^9\<close> with 2.
\<close>

theorem format_one_ether_one_gwei:
  "formatEther rt (JStr ''0xde0b6b3a7640000'') = Inr ''1.000000''
   \<and> formatGwei rt (JStr ''0x3b9aca00'') = Inr ''1.00''"
  by (simp add: formatEther_one formatGwei_one)

text \<open>
  C8, as the code has it. The snapshot route sends RPC requests, that is, runs a refresh
  cycle inline, if and only if the cache age at the request exceeds 30000 ms; the
  response is then the cache after that cycle. When the cycle completes and the clock has
  not gone back since the request, the returned \<open>lastUpdate\<close> is newer than the one
  before the call; when the cycle fails, the response is the cache as it was. Two
  requests in a row that both find the cache at most 30000 ms old send no RPC request
  and both return the cache unchanged.
\<close>

theorem snapshot_refresh_gate:
  "(rpcLog (snd (snapshotRoute rt st)) \<noteq> rpcLog st \<longleftrightarrow> 30000 < cacheAge rt st)
   \<and> (30000 < cacheAge rt st \<longrightarrow>
        snapshotRoute rt st = (cachedData (fetchLatestBlockData rt (snd (readClock rt st))),
                               fetchLatestBlockData rt (snd (readClock rt st))))
   \<and> (30000 < cacheAge rt st \<and> fst (fetchTry rt (snd (readClock rt st))) = Completed
        \<and> dateNow rt (clockReads st) \<le> dateNow rt (Suc (clockReads st)) \<longrightarrow>
        lastUpdate (cachedData st) < lastUpdate (fst (snapshotRoute rt st)))
   \<and> (30000 < cacheAge rt st \<and> fst (fetchTry rt (snd (readClock rt st))) \<noteq> Completed \<longrightarrow>
        fst (snapshotRoute rt st) = cachedData st)
   \<and> (cacheAge rt st \<le> 30000 \<and> cacheAge rt (snd (snapshotRoute rt st)) \<le> 30000 \<longrightarrow>
        rpcLog (snd (snapshotRoute rt (snd (snapshotRoute rt st)))) = rpcLog st
        \<and> fst (snapshotRoute rt st) = cachedData st
        \<and> fst (snapshotRoute rt (snd (snapshotRoute rt st))) = cachedData st)"
proof (intro conjI impI)
  let ?st1 = "snd (readClock rt st)"
  show "rpcLog (snd (snapshotRoute rt st)) \<noteq> rpcLog st \<longleftrightarrow> 30000 < cacheAge rt st"
  proof (cases "30000 < cacheAge rt st")
    case True
    with fetch_log_grows [of rt ?st1] show ?thesis by (simp add: snapshotRoute_stale)
  next
    case False
    then show ?thesis by (simp add: snapshotRoute_fresh)
  qed
  show "snapshotRoute rt st = (cachedData (fetchLatestBlockData rt ?st1), fetchLatestBlockData rt ?st1)"
    if "30000 < cacheAge rt st"
    using that by (rule snapshotRoute_stale)
  show "lastUpdate (cachedData st) < lastUpdate (fst (snapshotRoute rt st))"
    if "30000 < cacheAge rt st \<and> fst (fetchTry rt ?st1) = Completed
        \<and> dateNow rt (clockReads st) \<le> dateNow rt (Suc (clockReads st))"
  proof -
    from that have stale: "30000 < cacheAge rt st" and cmpl: "fst (fetchTry rt ?st1) = Completed"
      and mono: "dateNow rt (clockReads st) \<le> dateNow rt (Suc (clockReads st))" by simp_all
    from fetch_completed [OF cmpl] obtain k eb txs g m where
      "cachedData (fetchLatestBlockData rt ?st1) = committed rt k eb txs g m ?st1" by blast
    then have "lastUpdate (fst (snapshotRoute rt st)) = dateNow rt (Suc (clockReads st))"
      by (simp add: snapshotRoute_stale [OF stale] committed_def)
    with stale mono show ?thesis by (simp add: cacheAge_def)
  qed
  show "fst (snapshotRoute rt st) = cachedData st"
    if "30000 < cacheAge rt st \<and> fst (fetchTry rt ?st1) \<noteq> Completed"
  proof -
    from that have stale: "30000 < cacheAge rt st" and failed: "fst (fetchTry rt ?st1) \<noteq> Completed"
      by simp_all
    from fetch_failed [OF failed] show ?thesis
      by (simp add: snapshotRoute_stale [OF stale] sameFrame_def)
  qed
  assume fresh: "cacheAge rt st \<le> 30000 \<and> cacheAge rt (snd (snapshotRoute rt st)) \<le> 30000"
  then have a1: "cacheAge rt st \<le> 30000" by simp
  with fresh have a2: "cacheAge rt ?st1 \<le> 30000" by (simp add: snapshotRoute_fresh)
  show "fst (snapshotRoute rt st) = cachedData st"
    by (simp add: snapshotRoute_fresh [OF a1])
  show "rpcLog (snd (snapshotRoute rt (snd (snapshotRoute rt st)))) = rpcLog st"
    by (simp add: snapshotRoute_fresh [OF a1] snapshotRoute_fresh [OF a2])
  show "fst (snapshotRoute rt (snd (snapshotRoute rt st))) = cachedData st"
    by (simp add: snapshotRoute_fresh [OF a1] snapshotRoute_fresh [OF a2])
qed

text \<open>
  A first request at age 45 s refreshes; the two after it, 1 ms and 2 ms after that
  refresh, do not. With the endpoint down, the request at age 45 s returns the old cache.
\<close>

theorem snapshot_refresh_gate_witness:
  "cacheAge rtSame initialSys = 45000
   \<and> fst (fetchTry rtSame (snd (readClock rtSame initialSys))) = Completed
   \<and> rpcLog (snd (snapshotRoute rtSame initialSys)) = exampleRequests ''0x10''
   \<and> lastUpdate (cachedData initialSys) = 0
   \<and> lastUpdate (fst (snapshotRoute rtSame initialSys)) = 45001
   \<and> cacheAge rtSame (snd (snapshotRoute rtSame initialSys)) = 1
   \<and> cacheAge rtSame (snd (snapshotRoute rtSame (snd (snapshotRoute rtSame initialSys)))) = 2
   \<and> rpcLog (snd (snapshotRoute rtSame (snd (snapshotRoute rtSame
        (snd (snapshotRoute rtSame initialSys)))))) = exampleRequests ''0x10''
   \<and> cacheAge rtDown initialSys = 45000
   \<and> fst (fetchTry rtDown (snd (readClock rtDown initialSys))) = Threw NetworkError
   \<and> fst (snapshotRoute rtDown initialSys) = cachedData initialSys"
proof -
  let ?s1 = "snd (snapshotRoute rtSame initialSys)"
  have age0: "cacheAge rtSame initialSys = 45000" "cacheAge rtDown initialSys = 45000"
    by (simp_all add: cacheAge_def initialSys_def initialCache_def)
  have cmpl: "fst (fetchTry rtSame (snd (readClock rtSame initialSys))) = Completed"
    by (simp add: cycle_rtSame)
  have failed: "fst (fetchTry rtDown (snd (readClock rtDown initialSys))) = Threw NetworkError"
    by (simp add: cycle_rtDown)
  have s1: "?s1 = exampleResult rtSame ''0x10'' (snd (readClock rtSame initialSys))"
    using age0 by (simp add: snapshotRoute_stale fetch_rtSame)
  have log1: "rpcLog ?s1 = exampleRequests ''0x10''"
    unfolding s1 by (simp add: exampleResult_def initialSys_def)
  have upd: "lastUpdate (fst (snapshotRoute rtSame initialSys)) = 45001"
    using age0 by (simp add: snapshotRoute_stale fetch_rtSame exampleResult_def committed_def
        initialSys_def)
  have age1: "cacheAge rtSame ?s1 = 1"
    unfolding s1 by (simp add: cacheAge_def exampleResult_def committed_def initialSys_def)
  then have s2: "snapshotRoute rtSame ?s1 = (cachedData ?s1, snd (readClock rtSame ?s1))"
    by (simp add: snapshotRoute_fresh)
  have age2: "cacheAge rtSame (snd (snapshotRoute rtSame ?s1)) = 2"
    unfolding s2 unfolding s1
    by (simp add: cacheAge_def exampleResult_def committed_def initialSys_def)
  have l0: "lastUpdate (cachedData initialSys) = 0"
    by (simp add: initialSys_def initialCache_def)
  have old: "30000 < cacheAge rtSame initialSys" "30000 < cacheAge rtDown initialSys"
    using age0 by simp_all
  have mono: "dateNow rtSame (clockReads initialSys) \<le> dateNow rtSame (Suc (clockReads initialSys))"
    by simp
  have fresh: "cacheAge rtSame ?s1 \<le> 30000" "cacheAge rtSame (snd (snapshotRoute rtSame ?s1)) \<le> 30000"
    using age1 age2 by simp_all
  have nc: "fst (fetchTry rtDown (snd (readClock rtDown initialSys))) \<noteq> Completed"
    using failed by simp
  from snapshot_refresh_gate [of rtSame initialSys] old(1) cmpl mono
  have newer: "lastUpdate (cachedData initialSys) < lastUpdate (fst (snapshotRoute rtSame initialSys))"
    by blast
  from snapshot_refresh_gate [of rtSame ?s1] fresh
  have quiet: "rpcLog (snd (snapshotRoute rtSame (snd (snapshotRoute rtSame ?s1)))) = rpcLog ?s1"
    by blast
  from snapshot_refresh_gate [of rtDown initialSys] old(2) nc
  have stale: "fst (snapshotRoute rtDown initialSys) = cachedData initialSys"
    by blast
  from age0 cmpl failed log1 upd age1 age2 l0 newer quiet stale
  show ?thesis by simp
qed

text \<open>
  C8 as stated fails: at a cache age of 45 s with the endpoint down, the refresh is
  attempted and the returned \<open>lastUpdate\<close> is the one from before the call.
\<close>

theorem stale_snapshot_counterexample:
  "cacheAge rtDown initialSys = 45000
   \<and> rpcLog (snd (snapshotRoute rtDown initialSys)) = [(''eth_blockNumber'', [])]
   \<and> lastUpdate (fst (snapshotRoute rtDown initialSys)) = lastUpdate (cachedData initialSys)
   \<and> \<not> lastUpdate (cachedData initialSys) < lastUpdate (fst (snapshotRoute rtDown initialSys))"
proof -
  have age: "cacheAge rtDown initialSys = 45000"
    by (simp add: cacheAge_def initialSys_def initialCache_def)
  then have "30000 < cacheAge rtDown initialSys" by simp
  from snapshotRoute_stale [OF this] age show ?thesis
    by (simp add: fetch_rtDown) (simp add: initialSys_def)
qed

text \<open>
  C9. In every state, a request on the health route or on the mempool route triggers no
  refresh cycle and leaves the whole state, hence every field of the cache, unchanged.
  The health route returns the status, the last-update timestamp and the current block
  number; the mempool route returns only the mempool statistics; both read the cache as
  it is.
\<close>

theorem health_and_mempool_routes_only_read:
  "healthRoute st =
     (\<lparr>status = ''ok'', health_lastUpdate = lastUpdate (cachedData st),
       health_blockNumber = net_blockNumber (networkInfo (cachedData st))\<rparr>, st)
   \<and> mempoolRoute st = (mempoolStats (cachedData st), st)"
  by (simp add: healthRoute_def mempoolRoute_def)

text \<open>
  C10. In every state the status returned by the health route is the constant string
  \<^verbatim>\<open>'ok'\<close>, also before any refresh cycle has succeeded (\<open>lastUpdate = 0\<close>, no block)
  and however stale the cache is.
\<close>

theorem health_status_always_ok:
  "status (fst (healthRoute st)) = ''ok''
   \<and> fst (healthRoute initialSys)
       = \<lparr>status = ''ok'', health_lastUpdate = 0, health_blockNumber = Finite 0\<rparr>"
  by (simp add: healthRoute_def initialSys_def initialCache_def)

end
